theory Spec2Isabelle
  imports Complex_Main
begin

section \<open>Strings\<close>

text \<open>
  JavaScript strings are modelled as \<open>string\<close>. The code only compares, splits and joins
  them at the ASCII characters \<open>/\<close> and \<open>.\<close> and lower-cases them to compare with \<open>en\<close> and
  \<open>es\<close>; \<open>toLowerCase\<close> is therefore modelled on the ASCII letters (no other character
  lower-cases to an ASCII letter that the code compares with).
\<close>

definition toLowerChar :: "char \<Rightarrow> char" where
  "toLowerChar c =
     (case map_of (zip ''ABCDEFGHIJKLMNOPQRSTUVWXYZ'' ''abcdefghijklmnopqrstuvwxyz'') c of
        Some l \<Rightarrow> l
      | None \<Rightarrow> c)"

definition toLowerCase :: "string \<Rightarrow> string" where
  "toLowerCase s = map toLowerChar s"

definition startsWith :: "string \<Rightarrow> string \<Rightarrow> bool" where
  "startsWith s p = (take (length p) s = p)"

text \<open>\<open>s.split(sep)\<close> for a one-character separator: never empty, \<open>''''\<close> gives \<open>['''']\<close>.\<close>

fun split_on :: "char \<Rightarrow> string \<Rightarrow> string list" where
  "split_on sep [] = [[]]"
| "split_on sep (c # cs) =
     (if c = sep then [] # split_on sep cs
      else (case split_on sep cs of
              [] \<Rightarrow> [[c]]
            | seg # segs \<Rightarrow> (c # seg) # segs))"

text \<open>\<open>xs.join(sep)\<close>.\<close>

fun join_with :: "string \<Rightarrow> string list \<Rightarrow> string" where
  "join_with sep [] = []"
| "join_with sep [x] = x"
| "join_with sep (x # y # ys) = x @ sep @ join_with sep (y # ys)"

text \<open>\<open>s.replace(/^\/+/, '')\<close>.\<close>

definition strip_leading_slashes :: "string \<Rightarrow> string" where
  "strip_leading_slashes s = dropWhile (\<lambda>c. c = CHR ''/'') s"

text \<open>\<open>xs.findIndex(p)\<close> and \<open>xs.indexOf(x)\<close>, with \<open>None\<close> for \<open>-1\<close>.\<close>

fun findIndex :: "('a \<Rightarrow> bool) \<Rightarrow> 'a list \<Rightarrow> nat option" where
  "findIndex p [] = None"
| "findIndex p (x # xs) =
     (if p x then Some 0 else (case findIndex p xs of None \<Rightarrow> None | Some i \<Rightarrow> Some (Suc i)))"

text \<open>\<open>a || b\<close> on a string that may be \<open>null\<close>: \<open>null\<close> and the empty string are falsy.\<close>

fun or_else :: "string option \<Rightarrow> string \<Rightarrow> string" where
  "or_else None d = d"
| "or_else (Some s) d = (if s = [] then d else s)"

section \<open>JavaScript values\<close>

text \<open>
  The values a parsed translation file and the browser can hand to the code. Objects are
  association lists of their own properties (the first binding of a key is its value);
  \<open>JBuiltin\<close> stands for the functions and objects of the runtime itself.
\<close>

datatype jsval =
    JUndefined
  | JNull
  | JBool bool
  | JNum rat
  | JStr string
  | JArr "jsval list"
  | JObj "(string \<times> jsval) list"
  | JBuiltin string

datatype js_error = TypeError | StorageError | FetchError | HttpError | SyntaxError

fun truthy :: "jsval \<Rightarrow> bool" where
  "truthy JUndefined = False"
| "truthy JNull = False"
| "truthy (JBool b) = b"
| "truthy (JNum r) = (r \<noteq> 0)"
| "truthy (JStr s) = (s \<noteq> [])"
| "truthy (JArr xs) = True"
| "truthy (JObj ps) = True"
| "truthy (JBuiltin n) = True"

definition js_or :: "jsval \<Rightarrow> jsval \<Rightarrow> jsval" where
  "js_or a b = (if truthy a then a else b)"

text \<open>
  \<open>obj[k]\<close>. Reading a property of \<open>undefined\<close> or \<open>null\<close> raises a TypeError. An own
  property of an object is its value. Every other read (an inherited member of a built-in
  prototype such as \<open>constructor\<close>, the \<open>length\<close> or an index of a string or array, a
  property of a function) is answered by the runtime, which is not part of the repository:
  it is the parameter \<open>B\<close>. It gives \<open>JUndefined\<close> where the runtime has no such property,
  and an error where the read itself raises, as the accessors \<open>caller\<close> and \<open>arguments\<close> of a
  built-in function do.
\<close>

type_synonym runtime = "jsval \<Rightarrow> string \<Rightarrow> js_error + jsval"

fun get_prop :: "runtime \<Rightarrow> jsval \<Rightarrow> string \<Rightarrow> js_error + jsval" where
  "get_prop B JUndefined k = Inl TypeError"
| "get_prop B JNull k = Inl TypeError"
| "get_prop B (JObj ps) k = (case map_of ps k of Some v \<Rightarrow> Inr v | None \<Rightarrow> B (JObj ps) k)"
| "get_prop B v k = B v k"

text \<open>\<open>xs.reduce(f, init)\<close> for a callback that may raise.\<close>

fun reduce :: "('a \<Rightarrow> 'b \<Rightarrow> js_error + 'a) \<Rightarrow> 'b list \<Rightarrow> 'a \<Rightarrow> js_error + 'a" where
  "reduce f [] acc = Inr acc"
| "reduce f (x # xs) acc = (case f acc x of Inl e \<Rightarrow> Inl e | Inr acc' \<Rightarrow> reduce f xs acc')"

text \<open>The callback \<open>(obj, k) => obj && obj[k]\<close>.\<close>

definition and_get :: "runtime \<Rightarrow> jsval \<Rightarrow> string \<Rightarrow> js_error + jsval" where
  "and_get B obj k = (if truthy obj then get_prop B obj k else Inr obj)"

text \<open>\<open>getTranslation(key)\<close> (i18n.js 188-190; the same in every variant).\<close>

definition getTranslation :: "runtime \<Rightarrow> jsval \<Rightarrow> string \<Rightarrow> js_error + jsval" where
  "getTranslation B table key = reduce (and_get B) (split_on CHR ''.'' key) table"

text \<open>
  The path of own properties through nested objects: what the key denotes in the
  translation table itself, \<open>None\<close> when a segment is not an own property on the way.
\<close>

fun own_path :: "jsval \<Rightarrow> string list \<Rightarrow> jsval option" where
  "own_path v [] = Some v"
| "own_path (JObj ps) (k # ks) = (case map_of ps k of Some v \<Rightarrow> own_path v ks | None \<Rightarrow> None)"
| "own_path v (k # ks) = None"

section \<open>The page, the browser and the controller\<close>

text \<open>
  What the controller reads and writes outside itself. \<open>navigator.language\<close> and
  \<open>navigator.userLanguage\<close> are arbitrary values: a string in a conforming browser,
  \<open>JUndefined\<close> where the property is absent. The local storage holds the one key
  \<open>didalaSoft-language\<close>; reading or writing it may be refused by the browser, which
  raises. \<open>fetch\<close> gives the outcome of requesting \<open>translations/<lang>.json\<close>.
  \<open>builtin\<close> is the runtime's answer to a property read that is not an own property (the
  parameter \<open>B\<close> of \<open>get_prop\<close>), which may raise. The elements that carry \<open>data-i18n\<close> or
  \<open>data-i18n-title\<close> are a fixed list: what \<open>applyTranslations\<close> assigns to them is logged
  in \<open>dom_writes\<close>, with the value as the code passes it.
\<close>

datatype fetch_outcome =
    NetworkError
  | Response bool "jsval option"
      \<comment> \<open>\<open>response.ok\<close>, and the parsed body (\<open>None\<close>: \<open>response.json()\<close> rejects)\<close>

record element =
  tagName :: string
  etype :: "string option"  \<comment> \<open>\<open>element.type\<close>, \<open>None\<close> for \<open>undefined\<close>\<close>
  data_i18n :: "string option"
  data_i18n_title :: "string option"

datatype dom_write =
    SetPlaceholder jsval
  | SetTextContent jsval
  | SetContentAttr jsval
  | SetInnerHTML jsval
  | SetTitle jsval

record link_el =
  link_rel :: "string option"
  link_hreflang :: "string option"
  link_href :: "string option"

record world =
  pathname :: string
  search :: string
  hash :: string
  nav_language :: jsval
  nav_userLanguage :: jsval
  storage_readable :: bool
  storage_writable :: bool
  stored :: "string option"
  fetch :: "string \<Rightarrow> fetch_outcome"
  builtin :: runtime
  elements :: "element list"
  anchors :: "string option list"  \<comment> \<open>the \<open>href\<close> attribute of each \<open>a\<close> element\<close>
  head_links :: "link_el list"
  body_links :: "link_el list"
  requested :: "string list"  \<comment> \<open>the languages fetched so far, in order\<close>
  dom_writes :: "(nat \<times> dom_write) list"
      \<comment> \<open>the writes of \<open>applyTranslations\<close>, each with the index of its element\<close>
  navigated :: "string option"  \<comment> \<open>the last value assigned to \<open>window.location.href\<close>\<close>

record i18n =
  currentLang :: string
  translationTable :: jsval  \<comment> \<open>the field \<open>this.translations\<close>\<close>

definition supported :: "string \<Rightarrow> bool" where
  "supported l = (l = ''en'' \<or> l = ''es'')"

definition path_segments :: "world \<Rightarrow> string list" where
  "path_segments w = filter (\<lambda>segment. segment \<noteq> []) (split_on CHR ''/'' (pathname w))"

section \<open>Language resolution\<close>

text \<open>
  The body of the \<open>try\<close> in \<open>getBrowserLanguage\<close> (i18n.js 26-27). Only a string has a
  \<open>toLowerCase\<close> method; the \<open>|| ''\<close> keeps \<open>undefined\<close> and \<open>null\<close> out.
\<close>

definition browserLanguage_try :: "world \<Rightarrow> js_error + string" where
  "browserLanguage_try w =
     (case js_or (js_or (nav_language w) (nav_userLanguage w)) (JStr []) of
        JStr s \<Rightarrow> Inr (if startsWith (toLowerCase s) ''es'' then ''es'' else ''en'')
      | _ \<Rightarrow> Inl TypeError)"

definition getBrowserLanguage :: "world \<Rightarrow> string" where
  "getBrowserLanguage w = (case browserLanguage_try w of Inr l \<Rightarrow> l | Inl e \<Rightarrow> ''en'')"

text \<open>
  The oldest variant (part_000 20-23): no \<open>try\<close>, no \<open>toLowerCase\<close>, no \<open>|| ''\<close>.
  \<open>lang.startsWith\<close> raises on \<open>undefined\<close> and \<open>null\<close>, and is not a function on the other
  values that are not strings.
\<close>

definition getBrowserLanguage_simple :: "world \<Rightarrow> js_error + string" where
  "getBrowserLanguage_simple w =
     (case js_or (nav_language w) (nav_userLanguage w) of
        JStr s \<Rightarrow> Inr (if startsWith s ''es'' then ''es'' else ''en'')
      | _ \<Rightarrow> Inl TypeError)"

definition is_lang_segment_ci :: "string \<Rightarrow> bool" where
  "is_lang_segment_ci s = (toLowerCase s = ''en'' \<or> toLowerCase s = ''es'')"

definition is_lang_segment :: "string \<Rightarrow> bool" where
  "is_lang_segment s = (s = ''en'' \<or> s = ''es'')"

text \<open>\<open>getLanguageFromUrl\<close> (i18n.js 34-50); nothing in its \<open>try\<close> raises.\<close>

definition getLanguageFromUrl :: "world \<Rightarrow> string option" where
  "getLanguageFromUrl w =
     (case findIndex is_lang_segment_ci (path_segments w) of
        Some langIdx \<Rightarrow> Some (toLowerCase (path_segments w ! langIdx))
      | None \<Rightarrow> None)"

definition localStorage_getItem :: "world \<Rightarrow> js_error + string option" where
  "localStorage_getItem w = (if storage_readable w then Inr (stored w) else Inl StorageError)"

definition localStorage_setItem :: "world \<Rightarrow> string \<Rightarrow> js_error + world" where
  "localStorage_setItem w v =
     (if storage_writable w then Inr (w\<lparr>stored := Some v\<rparr>) else Inl StorageError)"

text \<open>\<open>getSavedLanguage\<close> (i18n.js 52-59) and its unguarded variant (part_000 25-27).\<close>

definition getSavedLanguage :: "world \<Rightarrow> string option" where
  "getSavedLanguage w = (case localStorage_getItem w of Inr v \<Rightarrow> v | Inl e \<Rightarrow> None)"

definition getSavedLanguage_simple :: "world \<Rightarrow> js_error + string option" where
  "getSavedLanguage_simple w = localStorage_getItem w"

text \<open>\<open>saveLanguage\<close> (i18n.js 61-68): \<open>currentLang\<close> is assigned after the write, inside the \<open>try\<close>.\<close>

definition saveLanguage :: "world \<Rightarrow> i18n \<Rightarrow> string \<Rightarrow> world \<times> i18n" where
  "saveLanguage w st lang =
     (case localStorage_setItem w lang of
        Inr w' \<Rightarrow> (w', st\<lparr>currentLang := lang\<rparr>)
      | Inl e \<Rightarrow> (w, st))"

definition saveLanguage_simple :: "world \<Rightarrow> i18n \<Rightarrow> string \<Rightarrow> js_error + world \<times> i18n" where
  "saveLanguage_simple w st lang =
     (case localStorage_setItem w lang of
        Inr w' \<Rightarrow> Inr (w', st\<lparr>currentLang := lang\<rparr>)
      | Inl e \<Rightarrow> Inl e)"

section \<open>Applying translations\<close>

text \<open>\<open>xs.forEach(f)\<close> over a state, for a callback that may raise: the loop stops there.\<close>

fun for_each :: "('a \<Rightarrow> 's \<Rightarrow> js_error option \<times> 's) \<Rightarrow> 'a list \<Rightarrow> 's \<Rightarrow> js_error option \<times> 's" where
  "for_each f [] s = (None, s)"
| "for_each f (x # xs) s =
     (case f x s of
        (Some e, s') \<Rightarrow> (Some e, s')
      | (None, s') \<Rightarrow> for_each f xs s')"

text \<open>What the first loop of \<open>applyTranslations\<close> writes to one element (i18n.js 109-119).\<close>

definition content_writes :: "element \<Rightarrow> jsval \<Rightarrow> dom_write list" where
  "content_writes el translation =
     (if truthy translation then
        (if tagName el = ''INPUT'' \<and> etype el = Some ''placeholder'' then [SetPlaceholder translation]
         else if tagName el = ''TITLE'' then [SetTextContent translation]
         else if tagName el = ''META'' then [SetContentAttr translation]
         else [SetInnerHTML translation])
      else [])"

text \<open>The same in the oldest variant (part_000 54-60).\<close>

definition content_writes_simple :: "element \<Rightarrow> jsval \<Rightarrow> dom_write list" where
  "content_writes_simple el translation =
     (if truthy translation then
        (if tagName el = ''INPUT'' \<and> etype el = Some ''placeholder'' then [SetPlaceholder translation]
         else [SetInnerHTML translation])
      else [])"

text \<open>The second loop (i18n.js 126-128).\<close>

definition title_writes :: "element \<Rightarrow> jsval \<Rightarrow> dom_write list" where
  "title_writes el translation = (if truthy translation then [SetTitle translation] else [])"

text \<open>
  The callback of either loop on the element at index \<open>i\<close>: \<open>attr\<close> reads the marker attribute,
  \<open>writes\<close> is the body of the \<open>if (translation)\<close>.
\<close>

definition translate_element ::
  "i18n \<Rightarrow> (element \<Rightarrow> string option) \<Rightarrow> (element \<Rightarrow> jsval \<Rightarrow> dom_write list) \<Rightarrow>
     nat \<times> element \<Rightarrow> world \<Rightarrow> js_error option \<times> world" where
  "translate_element st attr writes p w =
     (case attr (snd p) of
        None \<Rightarrow> (None, w)
      | Some key \<Rightarrow>
          (case getTranslation (builtin w) (translationTable st) key of
             Inl e \<Rightarrow> (Some e, w)
           | Inr translation \<Rightarrow>
               (None, w\<lparr>dom_writes := dom_writes w @ map (Pair (fst p)) (writes (snd p) translation)\<rparr>)))"

text \<open>\<open>document.querySelectorAll('[attr]')\<close>: the elements carrying the attribute, in order.\<close>

definition querySelectorAll_attr :: "world \<Rightarrow> (element \<Rightarrow> string option) \<Rightarrow> (nat \<times> element) list" where
  "querySelectorAll_attr w attr = filter (\<lambda>p. attr (snd p) \<noteq> None) (enumerate 0 (elements w))"

definition apply_with ::
  "(element \<Rightarrow> jsval \<Rightarrow> dom_write list) \<Rightarrow> world \<Rightarrow> i18n \<Rightarrow> js_error option \<times> world" where
  "apply_with writes w st =
     (case for_each (translate_element st data_i18n writes) (querySelectorAll_attr w data_i18n) w of
        (Some e, w') \<Rightarrow> (Some e, w')
      | (None, w') \<Rightarrow>
          for_each (translate_element st data_i18n_title title_writes)
            (querySelectorAll_attr w' data_i18n_title) w')"

text \<open>\<open>applyTranslations\<close> (i18n.js 104-130) and its oldest variant (part_000 49-71).\<close>

definition applyTranslations :: "world \<Rightarrow> i18n \<Rightarrow> js_error option \<times> world" where
  "applyTranslations = apply_with content_writes"

definition applyTranslations_simple :: "world \<Rightarrow> i18n \<Rightarrow> js_error option \<times> world" where
  "applyTranslations_simple = apply_with content_writes_simple"

section \<open>Links\<close>

definition internal_files :: "string list" where
  "internal_files = [''index.html'', ''audiograb.html'', ''privacy.html'']"

text \<open>\<open>a[href="index.html"], a[href="audiograb.html"], a[href="privacy.html"]\<close>.\<close>

definition selected_link :: "string option \<Rightarrow> bool" where
  "selected_link a = (case a of None \<Rightarrow> False | Some href \<Rightarrow> href \<in> set internal_files)"

definition hasLang :: "world \<Rightarrow> bool" where
  "hasLang w = (''en'' \<in> set (path_segments w) \<or> ''es'' \<in> set (path_segments w))"

text \<open>The callback of \<open>links.forEach\<close> (i18n.js 175-182) on the \<open>href\<close> attribute of a link.\<close>

definition rewrite_link :: "string \<Rightarrow> bool \<Rightarrow> string option \<Rightarrow> string option" where
  "rewrite_link lang has a =
     (case a of
        None \<Rightarrow> None
      | Some href \<Rightarrow>
          (if href = [] \<or> startsWith href ''http'' \<or> startsWith href ''#'' \<or> startsWith href ''/''
           then Some href
           else if has then Some href
           else Some (lang @ ''/'' @ strip_leading_slashes href)))"

text \<open>\<open>updateInternalLinks\<close> (i18n.js 163-186); nothing in its \<open>try\<close> raises.\<close>

definition updateInternalLinks :: "world \<Rightarrow> i18n \<Rightarrow> world" where
  "updateInternalLinks w st =
     (let lang = or_else (Some (currentLang st)) (or_else (getLanguageFromUrl w) ''en'')
      in w\<lparr>anchors :=
             map (\<lambda>a. if selected_link a then rewrite_link lang (hasLang w) a else a) (anchors w)\<rparr>)"

definition origin :: string where
  "origin = ''https://didalasoft.github.io/audiograb-site''"

definition pagePath :: "world \<Rightarrow> string" where
  "pagePath w =
     (let segs = filter (\<lambda>s. s \<noteq> []) (split_on CHR ''/'' (strip_leading_slashes (pathname w)));
          pageSegs = (case findIndex is_lang_segment segs of
                        Some langIdx \<Rightarrow> take langIdx segs @ drop (Suc langIdx) segs
                      | None \<Rightarrow> segs);
          joined = join_with ''/'' pageSegs
      in if joined = [] then ''index.html'' else joined)"

text \<open>
  \<open>link[rel="alternate"][hreflang]\<close>; in an HTML document the selector compares the value of
  \<open>rel\<close> without regard to ASCII case.
\<close>

definition is_alternate :: "link_el \<Rightarrow> bool" where
  "is_alternate l =
     ((case link_rel l of None \<Rightarrow> False | Some r \<Rightarrow> toLowerCase r = ''alternate'')
      \<and> link_hreflang l \<noteq> None)"

definition alternate_link :: "string \<Rightarrow> string \<Rightarrow> link_el" where
  "alternate_link hl url = \<lparr>link_rel = Some ''alternate'', link_hreflang = Some hl, link_href = Some url\<rparr>"

definition alternate_links :: "world \<Rightarrow> link_el list" where
  "alternate_links w =
     [alternate_link ''en'' (origin @ ''/en/'' @ pagePath w),
      alternate_link ''es'' (origin @ ''/es/'' @ pagePath w),
      alternate_link ''x-default'' (origin @ ''/en/'' @ pagePath w)]"

text \<open>
  \<open>setupHrefLang\<close> (i18n.js 132-161): every matching link is removed from its parent, then
  the three new ones are appended to the head. Nothing in its \<open>try\<close> raises.
\<close>

definition setupHrefLang :: "world \<Rightarrow> world" where
  "setupHrefLang w =
     w\<lparr>head_links := filter (\<lambda>l. \<not> is_alternate l) (head_links w) @ alternate_links w,
       body_links := filter (\<lambda>l. \<not> is_alternate l) (body_links w)\<rparr>"

text \<open>\<open>navigateToLanguage\<close> (i18n.js 202-222).\<close>

definition navigateToLanguage :: "world \<Rightarrow> string \<Rightarrow> world" where
  "navigateToLanguage w lang =
     (let segments = path_segments w;
          segments' =
            (case findIndex is_lang_segment segments of
               Some langIdx \<Rightarrow> segments[langIdx := lang]
             | None \<Rightarrow>
                 (let insertAt = (case findIndex (\<lambda>s. s = ''audiograb-site'') segments of
                                    Some repoIdx \<Rightarrow> repoIdx + 1
                                  | None \<Rightarrow> 0)
                  in take insertAt segments @ [lang] @ drop insertAt segments));
          newPath = ''/'' @ join_with ''/'' segments' @ search w @ hash w
      in w\<lparr>navigated := Some newPath\<rparr>)"

section \<open>Loading translations\<close>

text \<open>
  The request \<open>fetch(`translations/${lang}.json`)\<close> is logged in \<open>requested\<close>. The selector
  control and the canonical/Open Graph/JSON-LD nodes that \<open>updateLanguageSelector\<close> and
  \<open>setupDynamicMetaTags\<close> write are not part of \<open>world\<close>; neither call raises.
\<close>

definition fetch_issue :: "world \<Rightarrow> string \<Rightarrow> world" where
  "fetch_issue w lang = w\<lparr>requested := requested w @ [lang]\<rparr>"

text \<open>The calls that follow the assignment of the table (i18n.js 77-81 and 96-99).\<close>

definition after_load :: "world \<Rightarrow> i18n \<Rightarrow> js_error option \<times> world" where
  "after_load w st =
     (case applyTranslations w st of
        (Some e, w') \<Rightarrow> (Some e, w')
      | (None, w') \<Rightarrow> (None, setupHrefLang (updateInternalLinks w' st)))"

text \<open>
  The body of the \<open>try\<close> (i18n.js 72-81) after the request is issued: the exception it ends
  with, if any, and the state it leaves.
\<close>

definition load_try :: "world \<Rightarrow> i18n \<Rightarrow> string \<Rightarrow> js_error option \<times> world \<times> i18n" where
  "load_try w st lang =
     (case fetch w lang of
        NetworkError \<Rightarrow> (Some FetchError, w, st)
      | Response ok body \<Rightarrow>
          (if \<not> ok then (Some HttpError, w, st)
           else (case body of
                   None \<Rightarrow> (Some SyntaxError, w, st)
                 | Some parsed \<Rightarrow>
                     (case after_load w (st\<lparr>translationTable := parsed\<rparr>) of
                        (e, w') \<Rightarrow> (e, w', st\<lparr>translationTable := parsed\<rparr>)))))"

definition fallback_table :: jsval where
  "fallback_table =
     JObj [(''nav.home'', JStr ''Home''),
           (''nav.audiograb'', JStr ''AudioGrab''),
           (''nav.privacy'', JStr ''Privacy'')]"

text \<open>
  \<open>loadTranslations\<close> (i18n.js 70-102), run to its end: the first component is an exception
  that escapes the \<open>catch\<close> block, which leaves the promise rejected.
\<close>

function loadTranslations :: "world \<Rightarrow> i18n \<Rightarrow> string \<Rightarrow> js_error option \<times> world \<times> i18n" where
  "loadTranslations w st lang =
     (case load_try (fetch_issue w lang) st lang of
        (None, w', st') \<Rightarrow> (None, w', st')
      | (Some error, w', st') \<Rightarrow>
          (if lang \<noteq> ''en'' then loadTranslations w' st' ''en''
           else (case after_load w' (st'\<lparr>translationTable := fallback_table\<rparr>) of
                   (e, w'') \<Rightarrow> (e, w'', st'\<lparr>translationTable := fallback_table\<rparr>))))"
  by pat_completeness auto
termination
  by (relation "measure (\<lambda>(w, st, lang). if lang = ''en'' then 0 else 1)") auto

declare loadTranslations.simps [simp del]

section \<open>Construction and language switching\<close>

text \<open>\<open>a || b\<close> on two strings that may be \<open>null\<close>.\<close>

definition or_opt :: "string option \<Rightarrow> string option \<Rightarrow> string option" where
  "or_opt a b = (case a of None \<Rightarrow> b | Some s \<Rightarrow> if s = [] then b else Some s)"

text \<open>
  \<open>init\<close> (i18n.js 16-22). \<open>loadTranslations\<close> runs up to its first \<open>await\<close>, the request; its
  continuation runs after \<open>init\<close> has returned.
\<close>

definition init :: "world \<Rightarrow> i18n \<Rightarrow> world" where
  "init w st = setupHrefLang (updateInternalLinks (fetch_issue w (currentLang st)) st)"

text \<open>The constructor (i18n.js 3-14).\<close>

definition constructor :: "world \<Rightarrow> world \<times> i18n" where
  "constructor w =
     (let urlLang = getLanguageFromUrl w;
          savedLang = getSavedLanguage w;
          browserLang = getBrowserLanguage w;
          st = \<lparr>currentLang = or_else (or_opt (or_opt urlLang savedLang) (Some browserLang)) ''en'',
                translationTable = JObj []\<rparr>
      in (init w st, st))"

text \<open>
  The constructor of the oldest variant (part_000 3-18): no signal from the path, and the
  reads of the storage and of the browser language are not guarded.
\<close>

definition constructor_simple :: "world \<Rightarrow> js_error + world \<times> i18n" where
  "constructor_simple w =
     (case getSavedLanguage_simple w of
        Inl e \<Rightarrow> Inl e
      | Inr savedLang \<Rightarrow>
          (case getBrowserLanguage_simple w of
             Inl e \<Rightarrow> Inl e
           | Inr browserLang \<Rightarrow>
               (let st = \<lparr>currentLang = or_else (or_opt savedLang (Some browserLang)) ''en'',
                          translationTable = JObj []\<rparr>
                in Inr (fetch_issue w (currentLang st), st))))"

text \<open>\<open>changeLanguage\<close> (i18n.js 192-200).\<close>

definition changeLanguage :: "world \<Rightarrow> i18n \<Rightarrow> string \<Rightarrow> world \<times> i18n" where
  "changeLanguage w st lang =
     (if lang \<noteq> currentLang st then
        (case saveLanguage w st lang of
           (w1, st1) \<Rightarrow> (navigateToLanguage (fetch_issue w1 lang) lang, st1))
      else (w, st))"

text \<open>\<open>changeLanguage\<close> of the oldest variant (part_000 77-82).\<close>

definition changeLanguage_simple :: "world \<Rightarrow> i18n \<Rightarrow> string \<Rightarrow> js_error + world \<times> i18n" where
  "changeLanguage_simple w st lang =
     (if lang \<noteq> currentLang st then
        (case saveLanguage_simple w st lang of
           Inl e \<Rightarrow> Inl e
         | Inr (w1, st1) \<Rightarrow> Inr (fetch_issue w1 lang, st1))
      else Inr (w, st))"

section \<open>Notions used in the statements\<close>

text \<open>A string that begins with \<open>es\<close> in any letter case.\<close>

fun begins_es :: "string \<Rightarrow> bool" where
  "begins_es (a # b # rest) =
     ((a = CHR ''e'' \<or> a = CHR ''E'') \<and> (b = CHR ''s'' \<or> b = CHR ''S''))"
| "begins_es s = False"

text \<open>The runtime raises on no property read.\<close>

definition quiet :: "runtime \<Rightarrow> bool" where
  "quiet B = (\<forall>v k e. B v k \<noteq> Inl e)"

text \<open>The value \<open>getTranslation\<close> returns, when it returns.\<close>

definition translation_of :: "runtime \<Rightarrow> jsval \<Rightarrow> string \<Rightarrow> jsval" where
  "translation_of B table key =
     (case getTranslation B table key of Inr v \<Rightarrow> v | Inl e \<Rightarrow> JUndefined)"

text \<open>The writes of one loop of \<open>applyTranslations\<close> to the element at an index.\<close>

definition element_writes ::
  "runtime \<Rightarrow> i18n \<Rightarrow> (element \<Rightarrow> string option) \<Rightarrow>
     (element \<Rightarrow> jsval \<Rightarrow> dom_write list) \<Rightarrow> nat \<times> element \<Rightarrow> (nat \<times> dom_write) list" where
  "element_writes B st attr writes p =
     (case attr (snd p) of
        None \<Rightarrow> []
      | Some key \<Rightarrow>
          map (Pair (fst p)) (writes (snd p) (translation_of B (translationTable st) key)))"

text \<open>
  Loading a language fails: a network error, a status that is not OK, or a body that does
  not parse. Otherwise \<open>parsed_body\<close> is the table the response carries.
\<close>

definition request_fails :: "world \<Rightarrow> string \<Rightarrow> bool" where
  "request_fails w lang =
     (case fetch w lang of
        NetworkError \<Rightarrow> True
      | Response ok body \<Rightarrow> (if ok then body = None else True))"

definition parsed_body :: "world \<Rightarrow> string \<Rightarrow> jsval" where
  "parsed_body w lang =
     (case fetch w lang of Response ok (Some parsed) \<Rightarrow> parsed | _ \<Rightarrow> JUndefined)"

section \<open>Sample inputs\<close>

text \<open>
  Concrete inputs for the closed examples. \<open>sample_runtime\<close> is the part of a browser's
  runtime that the examples read: every value inherits the members of \<open>Object.prototype\<close>,
  the \<open>constructor\<close> of a plain object is the function \<open>Object\<close>, a string has its
  \<open>length\<close>, and reading \<open>caller\<close> or \<open>arguments\<close> of a built-in function raises a TypeError.
\<close>

definition object_prototype_names :: "string list" where
  "object_prototype_names =
     [''constructor'', ''hasOwnProperty'', ''isPrototypeOf'', ''propertyIsEnumerable'',
      ''toLocaleString'', ''toString'', ''valueOf'', ''__proto__'',
      ''__defineGetter__'', ''__defineSetter__'', ''__lookupGetter__'', ''__lookupSetter__'']"

definition inherited_member :: "string \<Rightarrow> js_error + jsval" where
  "inherited_member k =
     (if k \<in> set object_prototype_names then Inr (JBuiltin k) else Inr JUndefined)"

fun sample_runtime :: runtime where
  "sample_runtime (JObj ps) k =
     (if k = ''constructor'' then Inr (JBuiltin ''Object'') else inherited_member k)"
| "sample_runtime (JStr s) k =
     (if k = ''length'' then Inr (JNum (of_nat (length s))) else inherited_member k)"
| "sample_runtime (JBuiltin n) k =
     (if k = ''caller'' \<or> k = ''arguments'' then Inl TypeError else inherited_member k)"
| "sample_runtime v k = inherited_member k"

text \<open>A page whose only marked element carries the key \<open>constructor\<close>.\<close>

definition constructor_key_page :: "element list" where
  "constructor_key_page =
     [\<lparr>tagName = ''SPAN'', etype = None, data_i18n = Some ''constructor'',
        data_i18n_title = None\<rparr>]"

definition sample_table :: jsval where
  "sample_table =
     JObj [(''nav'', JObj [(''home'', JStr ''Home'')]),
           (''meta'', JObj [(''description'', JStr ''Download audio'')]),
           (''page'', JObj [(''title'', JStr ''AudioGrab'')]),
           (''form'', JObj [(''email'', JStr ''Email''), (''hint'', JStr ''Your address'')])]"

definition sample_elements :: "element list" where
  "sample_elements =
     [\<lparr>tagName = ''A'', etype = None, data_i18n = Some ''nav.home'', data_i18n_title = None\<rparr>,
      \<lparr>tagName = ''META'', etype = None, data_i18n = Some ''meta.description'',
        data_i18n_title = None\<rparr>,
      \<lparr>tagName = ''TITLE'', etype = None, data_i18n = Some ''page.title'', data_i18n_title = None\<rparr>,
      \<lparr>tagName = ''INPUT'', etype = Some ''text'', data_i18n = Some ''form.email'',
        data_i18n_title = Some ''form.hint''\<rparr>]"

definition sample_fetch :: "string \<Rightarrow> fetch_outcome" where
  "sample_fetch lang =
     (if lang = ''en'' \<or> lang = ''es'' then Response True (Some sample_table)
      else Response False None)"

definition sample_world :: world where
  "sample_world =
     \<lparr>pathname = ''/audiograb-site/index.html'', search = [], hash = [],
      nav_language = JStr ''es-MX'', nav_userLanguage = JUndefined,
      storage_readable = True, storage_writable = True, stored = Some ''es'',
      fetch = sample_fetch, builtin = sample_runtime, elements = sample_elements,
      anchors = [Some ''privacy.html'', Some ''https://example.org/'', Some ''#top'',
                 Some ''/index.html'', None],
      head_links = [\<lparr>link_rel = Some ''stylesheet'', link_hreflang = None,
                      link_href = Some ''css/style.css''\<rparr>,
                    \<lparr>link_rel = Some ''alternate'', link_hreflang = Some ''fr'',
                      link_href = Some ''https://example.org/fr/''\<rparr>],
      body_links = [], requested = [], dom_writes = [], navigated = None\<rparr>"

definition sample_i18n :: i18n where
  "sample_i18n = \<lparr>currentLang = ''es'', translationTable = sample_table\<rparr>"

section \<open>Key lookup\<close>

lemma reduce_falsy: "\<not> truthy obj \<Longrightarrow> reduce (and_get B) ks obj = Inr obj"
  by (induction ks) (auto simp: and_get_def)

lemma reduce_append:
  "reduce f (xs @ ys) a = (case reduce f xs a of Inl e \<Rightarrow> Inl e | Inr b \<Rightarrow> reduce f ys b)"
  by (induction xs arbitrary: a) (auto split: sum.splits)

lemma reduce_own_path: "own_path v ks = Some leaf \<Longrightarrow> reduce (and_get B) ks v = Inr leaf"
  by (induction v ks rule: own_path.induct) (auto simp: and_get_def split: option.splits)

lemma reduce_not_own:
  assumes "own_path table pre = Some (JObj ps)" "map_of ps k = None"
  shows "reduce (and_get B) (pre @ k # post) table =
           (case B (JObj ps) k of Inl e \<Rightarrow> Inl e | Inr r \<Rightarrow> reduce (and_get B) post r)"
  using assms by (simp add: reduce_append reduce_own_path and_get_def)

lemma reduce_absent:
  assumes "own_path table pre = Some (JObj ps)" "map_of ps k = None"
    "B (JObj ps) k = Inr JUndefined"
  shows "reduce (and_get B) (pre @ k # post) table = Inr JUndefined"
  using assms by (simp add: reduce_not_own reduce_falsy)

text \<open>An exception of the fold is an exception of a read that the runtime answers.\<close>

lemma and_get_raises: "and_get B obj k = Inl e \<Longrightarrow> \<exists>v k'. B v k' = Inl e"
  by (cases obj) (auto simp: and_get_def split: option.splits if_splits)

lemma reduce_raises: "reduce (and_get B) ks obj = Inl e \<Longrightarrow> \<exists>v k. B v k = Inl e"
proof (induction ks arbitrary: obj)
  case Nil
  then show ?case by simp
next
  case (Cons k ks)
  show ?case
  proof (cases "and_get B obj k")
    case (Inl e')
    with Cons.prems have "e' = e" by simp
    with Inl show ?thesis using and_get_raises by blast
  next
    case (Inr r)
    with Cons.prems have "reduce (and_get B) ks r = Inl e" by simp
    then show ?thesis by (rule Cons.IH)
  qed
qed

text \<open>
  A segment that the table does not have may still resolve: \<open>constructor\<close> is inherited by
  every object, so \<open>getTranslation("constructor")\<close> against \<open>{}\<close> is the function \<open>Object\<close>,
  which is truthy; a string leaf has a \<open>length\<close>, so \<open>getTranslation("nav.home.length")\<close>
  against \<open>{nav:{home:"Home"}}\<close> is 4. And the lookup can raise:
  \<open>getTranslation("constructor.caller")\<close> reads \<open>caller\<close> of a built-in function, which is a
  TypeError.
\<close>

theorem getTranslation_builtin_counterexample:
  "getTranslation sample_runtime (JObj []) ''constructor'' = Inr (JBuiltin ''Object'')
   \<and> truthy (JBuiltin ''Object'')
   \<and> own_path (JObj []) [''constructor''] = None
   \<and> getTranslation sample_runtime (JObj [(''nav'', JObj [(''home'', JStr ''Home'')])])
        ''nav.home.length'' = Inr (JNum 4)
   \<and> truthy (JNum 4)
   \<and> getTranslation sample_runtime (JObj []) ''constructor.caller'' = Inl TypeError"
  by (simp add: getTranslation_def and_get_def inherited_member_def object_prototype_names_def)

text \<open>
  C4, as the code has it. \<open>getTranslation(key)\<close> folds \<open>obj && obj[k]\<close> over the segments of
  the key. When the segments are a path of own properties through the table, it returns the
  value at its end. A segment that is not an own property of the object reached is read from
  the runtime: when the runtime has no property of that name the result is \<open>undefined\<close>, and
  more generally once \<open>obj && obj[k]\<close> is falsy that falsy value is the result. The call
  raises only when a read that the runtime answers raises. So \<open>getTranslation("nav.home")\<close>
  is \<open>"Home"\<close> against \<open>{nav:{home:"Home"}}\<close>, and is \<open>undefined\<close> against \<open>{}\<close>, \<open>nav\<close> not
  being a built-in property of objects.
\<close>

theorem getTranslation_lookup:
  "(\<forall>leaf. own_path table (split_on CHR ''.'' key) = Some leaf \<longrightarrow>
         getTranslation B table key = Inr leaf)
   \<and> (\<forall>pre k post ps.
         split_on CHR ''.'' key = pre @ k # post \<and> own_path table pre = Some (JObj ps)
           \<and> map_of ps k = None \<longrightarrow>
         getTranslation B table key =
           (case B (JObj ps) k of Inl e \<Rightarrow> Inl e | Inr r \<Rightarrow> reduce (and_get B) post r))
   \<and> (\<forall>pre k post ps.
         split_on CHR ''.'' key = pre @ k # post \<and> own_path table pre = Some (JObj ps)
           \<and> map_of ps k = None \<and> B (JObj ps) k = Inr JUndefined \<longrightarrow>
         getTranslation B table key = Inr JUndefined)
   \<and> (\<forall>pre k post obj r.
         split_on CHR ''.'' key = pre @ k # post \<and> own_path table pre = Some obj
           \<and> and_get B obj k = Inr r \<and> \<not> truthy r \<longrightarrow>
         getTranslation B table key = Inr r)
   \<and> (\<forall>e. getTranslation B table key = Inl e \<longrightarrow> (\<exists>v k. B v k = Inl e))
   \<and> getTranslation B (JObj [(''nav'', JObj [(''home'', JStr ''Home'')])]) ''nav.home''
       = Inr (JStr ''Home'')
   \<and> (B (JObj []) ''nav'' = Inr JUndefined \<longrightarrow>
         (\<exists>r. getTranslation B (JObj []) ''nav.home'' = Inr r \<and> \<not> truthy r))"
  unfolding getTranslation_def
  apply (intro conjI allI impI)
        apply (erule reduce_own_path)
       apply (simp add: reduce_not_own)
      apply (simp add: reduce_absent)
     apply (simp add: reduce_append reduce_own_path reduce_falsy)
    apply (erule reduce_raises)
   apply (simp add: and_get_def)
  apply (simp add: and_get_def)
  done

theorem getTranslation_lookup_witness:
  "getTranslation sample_runtime sample_table ''form.email'' = Inr (JStr ''Email'')
   \<and> getTranslation sample_runtime sample_table ''form.phone.label'' = Inr JUndefined
   \<and> (\<exists>r. getTranslation sample_runtime (JObj []) ''nav.home'' = Inr r \<and> \<not> truthy r)"
proof -
  note t = getTranslation_lookup [of sample_table "''form.email''" sample_runtime]
  note u = getTranslation_lookup [of sample_table "''form.phone.label''" sample_runtime]
  note v = getTranslation_lookup [of "JObj []" "''nav.home''" sample_runtime]
  have "own_path sample_table (split_on CHR ''.'' ''form.email'') = Some (JStr ''Email'')"
    by (simp add: sample_table_def)
  with t have 1: "getTranslation sample_runtime sample_table ''form.email'' = Inr (JStr ''Email'')"
    by blast
  have "split_on CHR ''.'' ''form.phone.label'' = [''form''] @ ''phone'' # [''label'']
      \<and> own_path sample_table [''form'']
          = Some (JObj [(''email'', JStr ''Email''), (''hint'', JStr ''Your address'')])
      \<and> map_of [(''email'', JStr ''Email''), (''hint'', JStr ''Your address'')] ''phone'' = None
      \<and> sample_runtime (JObj [(''email'', JStr ''Email''), (''hint'', JStr ''Your address'')])
            ''phone'' = Inr JUndefined"
    by (simp add: sample_table_def inherited_member_def object_prototype_names_def)
  with u have 2: "getTranslation sample_runtime sample_table ''form.phone.label'' = Inr JUndefined"
    by blast
  have "sample_runtime (JObj []) ''nav'' = Inr JUndefined"
    by (simp add: inherited_member_def object_prototype_names_def)
  with v have 3: "\<exists>r. getTranslation sample_runtime (JObj []) ''nav.home'' = Inr r \<and> \<not> truthy r"
    by blast
  from 1 2 3 show ?thesis by blast
qed

section \<open>The built-in fallback table\<close>

lemma split_on_nonempty: "split_on sep s \<noteq> []"
  by (induction s) (auto split: list.splits)

lemma hd_split_on_no_sep: "sep \<notin> set (hd (split_on sep s))"
  by (induction s) (auto split: list.splits)

lemma fallback_no_flat_key:
  "CHR ''.'' \<notin> set k \<Longrightarrow>
   map_of [(''nav.home'', JStr ''Home''), (''nav.audiograb'', JStr ''AudioGrab''),
           (''nav.privacy'', JStr ''Privacy'')] k = None"
  by auto

lemma getTranslation_fallback:
  assumes "B fallback_table (hd (split_on CHR ''.'' key)) = Inr JUndefined"
  shows "getTranslation B fallback_table key = Inr JUndefined"
proof -
  obtain k ks where split: "split_on CHR ''.'' key = k # ks"
    using split_on_nonempty [of "CHR ''.''" key] by (cases "split_on CHR ''.'' key") auto
  have "CHR ''.'' \<notin> set k"
    using hd_split_on_no_sep [of "CHR ''.''" key] split by simp
  then have "map_of [(''nav.home'', JStr ''Home''), (''nav.audiograb'', JStr ''AudioGrab''),
           (''nav.privacy'', JStr ''Privacy'')] k = None"
    by (rule fallback_no_flat_key)
  then have "and_get B fallback_table k = B fallback_table k"
    unfolding and_get_def fallback_table_def
    by (simp only: truthy.simps if_True get_prop.simps option.case)
  moreover have "B fallback_table k = Inr JUndefined"
    using assms split by simp
  ultimately show ?thesis
    by (simp add: getTranslation_def split reduce_falsy)
qed

lemma for_each_skip:
  assumes "\<And>x. x \<in> set xs \<Longrightarrow> f x s = (None, s)"
  shows "for_each f xs s = (None, s)"
  using assms by (induction xs) auto

lemma in_set_enumerate_snd: "p \<in> set (enumerate n xs) \<Longrightarrow> snd p \<in> set xs"
  by (metis in_set_zipE enumerate_eq_zip prod.collapse)

lemma translate_element_falsy:
  assumes "\<And>key. attr (snd p) = Some key \<Longrightarrow>
             \<exists>r. getTranslation (builtin w) (translationTable st) key = Inr r \<and> \<not> truthy r"
  shows "translate_element st attr content_writes p w = (None, w)"
    and "translate_element st attr title_writes p w = (None, w)"
  using assms
  by (fastforce simp: translate_element_def content_writes_def title_writes_def
      split: option.splits)+

lemma applyTranslations_nothing:
  assumes "\<And>el key. el \<in> set (elements w) \<Longrightarrow>
             data_i18n el = Some key \<or> data_i18n_title el = Some key \<Longrightarrow>
             \<exists>r. getTranslation (builtin w) (translationTable st) key = Inr r \<and> \<not> truthy r"
  shows "applyTranslations w st = (None, w)"
proof -
  have 1: "for_each (translate_element st data_i18n content_writes)
             (querySelectorAll_attr w data_i18n) w = (None, w)"
    by (rule for_each_skip, rule translate_element_falsy)
       (auto simp: querySelectorAll_attr_def dest!: in_set_enumerate_snd intro: assms)
  have 2: "for_each (translate_element st data_i18n_title title_writes)
             (querySelectorAll_attr w data_i18n_title) w = (None, w)"
    by (rule for_each_skip, rule translate_element_falsy)
       (auto simp: querySelectorAll_attr_def dest!: in_set_enumerate_snd intro: assms)
  show ?thesis
    by (simp add: applyTranslations_def apply_with_def 1 2)
qed

text \<open>
  With the fallback table loaded, an element whose key is \<open>constructor\<close> is written to: the
  lookup finds the inherited \<open>constructor\<close> of the table, a function, and assigns it as
  inner HTML.
\<close>

theorem fallback_constructor_key_counterexample:
  "getTranslation sample_runtime fallback_table ''constructor'' = Inr (JBuiltin ''Object'')
   \<and> applyTranslations (sample_world\<lparr>elements := constructor_key_page\<rparr>)
         (sample_i18n\<lparr>translationTable := fallback_table\<rparr>)
       = (None, sample_world\<lparr>elements := constructor_key_page,
                  dom_writes := [(0, SetInnerHTML (JBuiltin ''Object''))]\<rparr>)"
  by (simp add: applyTranslations_def apply_with_def querySelectorAll_attr_def sample_world_def
      constructor_key_page_def translate_element_def getTranslation_def and_get_def
      fallback_table_def content_writes_def title_writes_def)

text \<open>
  C10, as the code has it. The keys of the built-in fallback table are the flat strings
  \<open>nav.home\<close>, \<open>nav.audiograb\<close> and \<open>nav.privacy\<close>. \<open>getTranslation\<close> looks for a property
  \<open>nav\<close>, which the table does not have (and which is not a built-in property of objects),
  so it returns \<open>undefined\<close> for each of the three keys. No key reaches an entry of the
  table, its first segment having no dot: with the fallback table loaded,
  \<open>applyTranslations\<close> writes to no element and raises nothing on a page whose keys do not
  begin with the name of a built-in property. An element whose key begins with such a name
  is not covered.
\<close>

theorem fallback_table_flat_keys:
  "map fst (case fallback_table of JObj ps \<Rightarrow> ps | _ \<Rightarrow> [])
     = [''nav.home'', ''nav.audiograb'', ''nav.privacy'']
   \<and> (B fallback_table ''nav'' = Inr JUndefined \<longrightarrow>
        getTranslation B fallback_table ''nav.home'' = Inr JUndefined
        \<and> getTranslation B fallback_table ''nav.audiograb'' = Inr JUndefined
        \<and> getTranslation B fallback_table ''nav.privacy'' = Inr JUndefined)
   \<and> ((\<forall>el key. el \<in> set (elements w)
            \<and> (data_i18n el = Some key \<or> data_i18n_title el = Some key) \<longrightarrow>
          builtin w fallback_table (hd (split_on CHR ''.'' key)) = Inr JUndefined) \<longrightarrow>
        applyTranslations w (st\<lparr>translationTable := fallback_table\<rparr>) = (None, w))"
proof (intro conjI impI)
  show "map fst (case fallback_table of JObj ps \<Rightarrow> ps | _ \<Rightarrow> [])
          = [''nav.home'', ''nav.audiograb'', ''nav.privacy'']"
    by (simp add: fallback_table_def)
next
  assume "B fallback_table ''nav'' = Inr JUndefined"
  then show "getTranslation B fallback_table ''nav.home'' = Inr JUndefined"
    by (intro getTranslation_fallback) simp
next
  assume "B fallback_table ''nav'' = Inr JUndefined"
  then show "getTranslation B fallback_table ''nav.audiograb'' = Inr JUndefined"
    by (intro getTranslation_fallback) simp
next
  assume "B fallback_table ''nav'' = Inr JUndefined"
  then show "getTranslation B fallback_table ''nav.privacy'' = Inr JUndefined"
    by (intro getTranslation_fallback) simp
next
  assume h: "\<forall>el key. el \<in> set (elements w)
               \<and> (data_i18n el = Some key \<or> data_i18n_title el = Some key) \<longrightarrow>
             builtin w fallback_table (hd (split_on CHR ''.'' key)) = Inr JUndefined"
  show "applyTranslations w (st\<lparr>translationTable := fallback_table\<rparr>) = (None, w)"
  proof (rule applyTranslations_nothing)
    fix el key
    assume "el \<in> set (elements w)" "data_i18n el = Some key \<or> data_i18n_title el = Some key"
    with h have "builtin w fallback_table (hd (split_on CHR ''.'' key)) = Inr JUndefined"
      by blast
    then have "getTranslation (builtin w) fallback_table key = Inr JUndefined"
      by (rule getTranslation_fallback)
    then show "\<exists>r. getTranslation (builtin w)
                  (translationTable (st\<lparr>translationTable := fallback_table\<rparr>)) key = Inr r
                \<and> \<not> truthy r"
      by simp
  qed
qed

theorem fallback_table_flat_keys_witness:
  "getTranslation sample_runtime fallback_table ''nav.home'' = Inr JUndefined
   \<and> getTranslation sample_runtime fallback_table ''nav.audiograb'' = Inr JUndefined
   \<and> getTranslation sample_runtime fallback_table ''nav.privacy'' = Inr JUndefined
   \<and> applyTranslations sample_world (sample_i18n\<lparr>translationTable := fallback_table\<rparr>)
       = (None, sample_world)"
proof -
  note t = fallback_table_flat_keys [of sample_runtime sample_world sample_i18n]
  have 1: "sample_runtime fallback_table ''nav'' = Inr JUndefined"
    by (simp add: fallback_table_def inherited_member_def object_prototype_names_def)
  have 2: "\<forall>el key. el \<in> set (elements sample_world)
              \<and> (data_i18n el = Some key \<or> data_i18n_title el = Some key) \<longrightarrow>
            builtin sample_world fallback_table (hd (split_on CHR ''.'' key)) = Inr JUndefined"
    by (auto simp: sample_world_def sample_elements_def fallback_table_def inherited_member_def
        object_prototype_names_def)
  from t 1 2 show ?thesis by blast
qed

section \<open>Switching to the active language\<close>

text \<open>
  C7. \<open>changeLanguage\<close> called with the language that is already \<open>currentLang\<close> does nothing:
  the browser state (the stored preference, the requests issued, the location) and the
  controller state (\<open>currentLang\<close>, the table) are returned as they were. The same holds in
  the oldest variant, which does not raise either.
\<close>

theorem changeLanguage_same_noop:
  "changeLanguage w st (currentLang st) = (w, st)
   \<and> changeLanguage_simple w st (currentLang st) = Inr (w, st)"
  by (simp add: changeLanguage_def changeLanguage_simple_def)

theorem changeLanguage_same_noop_witness:
  "changeLanguage sample_world sample_i18n ''es'' = (sample_world, sample_i18n)
   \<and> changeLanguage_simple sample_world sample_i18n ''es'' = Inr (sample_world, sample_i18n)"
  using changeLanguage_same_noop [of sample_world sample_i18n]
  by (simp add: sample_i18n_def)

section \<open>Loading and its fallbacks\<close>

text \<open>
  \<open>applyTranslations\<close> changes nothing but the document, whether it raises or not, and so do
  the calls that follow the assignment of the table.
\<close>

lemma translate_element_frame:
  "\<exists>e ws. translate_element st attr writes p w = (e, w\<lparr>dom_writes := ws\<rparr>)"
proof (cases "attr (snd p)")
  case None
  then have "translate_element st attr writes p w = (None, w\<lparr>dom_writes := dom_writes w\<rparr>)"
    by (simp add: translate_element_def)
  then show ?thesis by blast
next
  case (Some key)
  show ?thesis
  proof (cases "getTranslation (builtin w) (translationTable st) key")
    case (Inl e)
    with Some have "translate_element st attr writes p w = (Some e, w\<lparr>dom_writes := dom_writes w\<rparr>)"
      by (simp add: translate_element_def)
    then show ?thesis by blast
  next
    case (Inr t)
    with Some have "translate_element st attr writes p w
        = (None, w\<lparr>dom_writes := dom_writes w @ map (Pair (fst p)) (writes (snd p) t)\<rparr>)"
      by (simp add: translate_element_def)
    then show ?thesis by blast
  qed
qed

lemma for_each_frame:
  "\<exists>e ws. for_each (translate_element st attr writes) ps w = (e, w\<lparr>dom_writes := ws\<rparr>)"
proof (induction ps arbitrary: w)
  case Nil
  have "for_each (translate_element st attr writes) [] w = (None, w\<lparr>dom_writes := dom_writes w\<rparr>)"
    by simp
  then show ?case by blast
next
  case (Cons p ps)
  obtain e ws where step: "translate_element st attr writes p w = (e, w\<lparr>dom_writes := ws\<rparr>)"
    using translate_element_frame by blast
  show ?case
  proof (cases e)
    case (Some x)
    with step show ?thesis by auto
  next
    case None
    obtain e' ws' where "for_each (translate_element st attr writes) ps (w\<lparr>dom_writes := ws\<rparr>)
        = (e', w\<lparr>dom_writes := ws\<rparr>\<lparr>dom_writes := ws'\<rparr>)"
      using Cons.IH by blast
    with step None show ?thesis by auto
  qed
qed

lemma apply_with_frame: "\<exists>e ws. apply_with writes w st = (e, w\<lparr>dom_writes := ws\<rparr>)"
proof -
  obtain e ws where 1: "for_each (translate_element st data_i18n writes)
      (querySelectorAll_attr w data_i18n) w = (e, w\<lparr>dom_writes := ws\<rparr>)"
    using for_each_frame by blast
  show ?thesis
  proof (cases e)
    case (Some x)
    with 1 show ?thesis by (auto simp: apply_with_def)
  next
    case None
    obtain e' ws' where "for_each (translate_element st data_i18n_title title_writes)
        (querySelectorAll_attr (w\<lparr>dom_writes := ws\<rparr>) data_i18n_title) (w\<lparr>dom_writes := ws\<rparr>)
        = (e', w\<lparr>dom_writes := ws\<rparr>\<lparr>dom_writes := ws'\<rparr>)"
      using for_each_frame by blast
    with 1 None show ?thesis by (auto simp: apply_with_def)
  qed
qed

lemma after_load_frame:
  "\<exists>e w'. after_load w st = (e, w') \<and> fetch w' = fetch w \<and> requested w' = requested w
        \<and> stored w' = stored w"
proof -
  obtain e ws where a: "applyTranslations w st = (e, w\<lparr>dom_writes := ws\<rparr>)"
    using apply_with_frame [of content_writes w st] by (auto simp: applyTranslations_def)
  show ?thesis
    by (cases e)
      (simp_all add: after_load_def a setupHrefLang_def updateInternalLinks_def Let_def)
qed

lemma load_try_ok:
  assumes "\<not> request_fails w lang"
  shows "\<exists>e w'. load_try w st lang = (e, w', st\<lparr>translationTable := parsed_body w lang\<rparr>)
           \<and> fetch w' = fetch w \<and> requested w' = requested w \<and> stored w' = stored w"
proof -
  from assms obtain parsed where f: "fetch w lang = Response True (Some parsed)"
    by (auto simp: request_fails_def split: fetch_outcome.splits if_splits)
  obtain e w' where "after_load w (st\<lparr>translationTable := parsed\<rparr>) = (e, w')"
      "fetch w' = fetch w" "requested w' = requested w" "stored w' = stored w"
    using after_load_frame by blast
  then show ?thesis
    by (simp add: load_try_def f parsed_body_def)
qed

lemma load_try_fails:
  assumes "request_fails w lang"
  shows "\<exists>e. load_try w st lang = (Some e, w, st)"
  using assms
  by (auto simp: request_fails_def load_try_def split: fetch_outcome.splits if_splits)

lemma request_fails_fetch: "fetch w' = fetch w \<Longrightarrow> request_fails w' lang = request_fails w lang"
  by (simp add: request_fails_def)

lemma request_fails_issue: "request_fails (fetch_issue w l) lang = request_fails w lang"
  by (simp add: request_fails_def fetch_issue_def)

lemma parsed_body_issue: "parsed_body (fetch_issue w l) lang = parsed_body w lang"
  by (simp add: parsed_body_def fetch_issue_def)

text \<open>The \<open>catch\<close> block for \<open>en\<close>: the fallback table is assigned, then applied.\<close>

lemma fallback_branch:
  "\<exists>e w'. (case after_load w (st\<lparr>translationTable := fallback_table\<rparr>) of
              (e, w'') \<Rightarrow> (e, w'', st\<lparr>translationTable := fallback_table\<rparr>))
            = (e, w', st\<lparr>translationTable := fallback_table\<rparr>)
          \<and> requested w' = requested w \<and> stored w' = stored w"
proof -
  obtain e w' where "after_load w (st\<lparr>translationTable := fallback_table\<rparr>) = (e, w')"
      "requested w' = requested w" "stored w' = stored w"
    using after_load_frame by blast
  then show ?thesis by simp
qed

lemma loadTranslations_en:
  "\<exists>e w' t. loadTranslations w st ''en'' = (e, w', st\<lparr>translationTable := t\<rparr>)
     \<and> requested w' = requested w @ [''en''] \<and> stored w' = stored w
     \<and> (request_fails w ''en'' \<longrightarrow> t = fallback_table)"
proof (cases "request_fails w ''en''")
  case True
  then have "request_fails (fetch_issue w ''en'') ''en''"
    by (simp add: request_fails_issue)
  from load_try_fails [OF this, of st]
  obtain e where t: "load_try (fetch_issue w ''en'') st ''en'' = (Some e, fetch_issue w ''en'', st)"
    by auto
  obtain e' w' where b: "(case after_load (fetch_issue w ''en'')
                (st\<lparr>translationTable := fallback_table\<rparr>) of
              (e, w'') \<Rightarrow> (e, w'', st\<lparr>translationTable := fallback_table\<rparr>))
            = (e', w', st\<lparr>translationTable := fallback_table\<rparr>)"
      and "requested w' = requested (fetch_issue w ''en'')"
        "stored w' = stored (fetch_issue w ''en'')"
    using fallback_branch by blast
  then have g: "requested w' = requested w @ [''en'']" "stored w' = stored w"
    by (simp_all add: fetch_issue_def)
  have "loadTranslations w st ''en'' = (e', w', st\<lparr>translationTable := fallback_table\<rparr>)"
    using b by (subst loadTranslations.simps) (simp add: t)
  with g show ?thesis by blast
next
  case False
  then have "\<not> request_fails (fetch_issue w ''en'') ''en''"
    by (simp add: request_fails_issue)
  from load_try_ok [OF this, of st]
  obtain e w1 where t: "load_try (fetch_issue w ''en'') st ''en''
       = (e, w1, st\<lparr>translationTable := parsed_body w ''en''\<rparr>)"
     and f: "requested w1 = requested (fetch_issue w ''en'')" "stored w1 = stored (fetch_issue w ''en'')"
    by (auto simp: parsed_body_issue)
  show ?thesis
  proof (cases e)
    case None
    from f have g: "requested w1 = requested w @ [''en'']" "stored w1 = stored w"
      by (simp_all add: fetch_issue_def)
    have "loadTranslations w st ''en''
        = (None, w1, st\<lparr>translationTable := parsed_body w ''en''\<rparr>)"
      by (subst loadTranslations.simps) (simp add: t None)
    with g False show ?thesis by blast
  next
    case (Some x)
    obtain e' w' where b: "(case after_load w1 (st\<lparr>translationTable := parsed_body w ''en''\<rparr>
                \<lparr>translationTable := fallback_table\<rparr>) of
              (e, w'') \<Rightarrow> (e, w'', st\<lparr>translationTable := parsed_body w ''en''\<rparr>
                \<lparr>translationTable := fallback_table\<rparr>))
            = (e', w', st\<lparr>translationTable := parsed_body w ''en''\<rparr>
                \<lparr>translationTable := fallback_table\<rparr>)"
      and "requested w' = requested w1" "stored w' = stored w1"
      using fallback_branch by blast
    with f have g: "requested w' = requested w @ [''en'']" "stored w' = stored w"
      by (simp_all add: fetch_issue_def)
    have "loadTranslations w st ''en'' = (e', w', st\<lparr>translationTable := fallback_table\<rparr>)"
      using b by (subst loadTranslations.simps) (simp add: t Some)
    with g False show ?thesis by blast
  qed
qed

text \<open>
  Every run of \<open>loadTranslations\<close>: what it requests, that it only assigns the table, and
  when the table is the built-in one.
\<close>

lemma loadTranslations_run:
  "\<exists>e w' t. loadTranslations w st lang = (e, w', st\<lparr>translationTable := t\<rparr>)
     \<and> stored w' = stored w
     \<and> (requested w' = requested w @ [lang]
          \<or> lang \<noteq> ''en'' \<and> requested w' = requested w @ [lang, ''en''])
     \<and> (request_fails w lang \<and> lang \<noteq> ''en'' \<longrightarrow> requested w' = requested w @ [lang, ''en''])
     \<and> (request_fails w lang \<and> (lang = ''en'' \<or> request_fails w ''en'') \<longrightarrow> t = fallback_table)"
proof (cases "lang = ''en''")
  case True
  with loadTranslations_en [of w st] show ?thesis by auto
next
  case False
  show ?thesis
  proof (cases "request_fails w lang")
    case True
    then have "request_fails (fetch_issue w lang) lang"
      by (simp add: request_fails_issue)
    from load_try_fails [OF this, of st]
    obtain e where t: "load_try (fetch_issue w lang) st lang = (Some e, fetch_issue w lang, st)"
      by auto
    have r: "loadTranslations w st lang = loadTranslations (fetch_issue w lang) st ''en''"
      by (subst loadTranslations.simps) (simp add: t False)
    from loadTranslations_en [of "fetch_issue w lang" st]
    obtain e' w' t' where "loadTranslations (fetch_issue w lang) st ''en''
          = (e', w', st\<lparr>translationTable := t'\<rparr>)"
        "requested w' = requested (fetch_issue w lang) @ [''en'']"
        "stored w' = stored (fetch_issue w lang)"
        "request_fails (fetch_issue w lang) ''en'' \<longrightarrow> t' = fallback_table"
      by blast
    then have "loadTranslations w st lang = (e', w', st\<lparr>translationTable := t'\<rparr>)
        \<and> stored w' = stored w \<and> requested w' = requested w @ [lang, ''en'']
        \<and> (request_fails w ''en'' \<longrightarrow> t' = fallback_table)"
      by (simp add: r request_fails_issue) (simp add: fetch_issue_def)
    with False True show ?thesis by blast
  next
    case nofail: False
    then have "\<not> request_fails (fetch_issue w lang) lang"
      by (simp add: request_fails_issue)
    from load_try_ok [OF this, of st]
    obtain e w1 where t: "load_try (fetch_issue w lang) st lang
         = (e, w1, st\<lparr>translationTable := parsed_body w lang\<rparr>)"
       and f: "requested w1 = requested (fetch_issue w lang)" "stored w1 = stored (fetch_issue w lang)"
      by (auto simp: parsed_body_issue)
    show ?thesis
    proof (cases e)
      case None
      from f have g: "requested w1 = requested w @ [lang]" "stored w1 = stored w"
        by (simp_all add: fetch_issue_def)
      have "loadTranslations w st lang
          = (None, w1, st\<lparr>translationTable := parsed_body w lang\<rparr>)"
        by (subst loadTranslations.simps) (simp add: t None)
      with g nofail show ?thesis by blast
    next
      case (Some x)
      have r: "loadTranslations w st lang
          = loadTranslations w1 (st\<lparr>translationTable := parsed_body w lang\<rparr>) ''en''"
        by (subst loadTranslations.simps) (simp add: t Some False)
      from loadTranslations_en [of w1 "st\<lparr>translationTable := parsed_body w lang\<rparr>"]
      obtain e' w' t' where "loadTranslations w1 (st\<lparr>translationTable := parsed_body w lang\<rparr>) ''en''
            = (e', w', st\<lparr>translationTable := parsed_body w lang\<rparr>\<lparr>translationTable := t'\<rparr>)"
          "requested w' = requested w1 @ [''en'']" "stored w' = stored w1"
        by blast
      with f have "loadTranslations w st lang = (e', w', st\<lparr>translationTable := t'\<rparr>)
          \<and> stored w' = stored w \<and> requested w' = requested w @ [lang, ''en'']"
        by (simp add: r fetch_issue_def)
      with False nofail show ?thesis by blast
    qed
  qed
qed

text \<open>
  C3. When loading \<open>lang\<close> fails (network error, status not OK, or a body that does not
  parse) and \<open>lang\<close> is not \<open>en\<close>, exactly one more request is made, for \<open>en\<close>: the requests
  are \<open>lang\<close> then \<open>en\<close>. No run makes more than that one retry, and a run for \<open>en\<close> makes
  none. When loading \<open>en\<close> itself fails (asked for directly or as the retry), the table is
  the built-in fallback, which has the keys \<open>nav.home\<close>, \<open>nav.audiograb\<close> and \<open>nav.privacy\<close>.
  This holds whether or not applying a table to the page raises: an exception there is
  caught by the same \<open>catch\<close> block, and one raised while the fallback table is applied
  leaves the promise rejected with the fallback table in place.
\<close>

theorem loadTranslations_fallback:
  "(request_fails w lang \<and> lang \<noteq> ''en'' \<longrightarrow>
        requested (fst (snd (loadTranslations w st lang))) = requested w @ [lang, ''en''])
   \<and> (requested (fst (snd (loadTranslations w st lang))) = requested w @ [lang]
        \<or> lang \<noteq> ''en''
          \<and> requested (fst (snd (loadTranslations w st lang))) = requested w @ [lang, ''en''])
   \<and> requested (fst (snd (loadTranslations w st ''en''))) = requested w @ [''en'']
   \<and> (request_fails w lang \<and> (lang = ''en'' \<or> request_fails w ''en'') \<longrightarrow>
        snd (snd (loadTranslations w st lang)) = st\<lparr>translationTable := fallback_table\<rparr>)
   \<and> own_path fallback_table [''nav.home''] = Some (JStr ''Home'')
   \<and> own_path fallback_table [''nav.audiograb''] = Some (JStr ''AudioGrab'')
   \<and> own_path fallback_table [''nav.privacy''] = Some (JStr ''Privacy'')"
proof -
  obtain e w' t where run: "loadTranslations w st lang = (e, w', st\<lparr>translationTable := t\<rparr>)"
      "requested w' = requested w @ [lang]
          \<or> lang \<noteq> ''en'' \<and> requested w' = requested w @ [lang, ''en'']"
      "request_fails w lang \<and> lang \<noteq> ''en'' \<longrightarrow> requested w' = requested w @ [lang, ''en'']"
      "request_fails w lang \<and> (lang = ''en'' \<or> request_fails w ''en'') \<longrightarrow> t = fallback_table"
    using loadTranslations_run [of w st lang] by blast
  obtain e1 w1 t1 where en: "loadTranslations w st ''en'' = (e1, w1, st\<lparr>translationTable := t1\<rparr>)"
      "requested w1 = requested w @ [''en'']"
    using loadTranslations_en [of w st] by blast
  have 1: "request_fails w lang \<and> lang \<noteq> ''en'' \<longrightarrow>
        requested (fst (snd (loadTranslations w st lang))) = requested w @ [lang, ''en'']"
    using run by simp
  have 2: "requested (fst (snd (loadTranslations w st lang))) = requested w @ [lang]
        \<or> lang \<noteq> ''en''
          \<and> requested (fst (snd (loadTranslations w st lang))) = requested w @ [lang, ''en'']"
    using run by simp
  have 3: "requested (fst (snd (loadTranslations w st ''en''))) = requested w @ [''en'']"
    using en by simp
  have 4: "request_fails w lang \<and> (lang = ''en'' \<or> request_fails w ''en'') \<longrightarrow>
        snd (snd (loadTranslations w st lang)) = st\<lparr>translationTable := fallback_table\<rparr>"
    using run by simp
  have 5: "own_path fallback_table [''nav.home''] = Some (JStr ''Home'')
   \<and> own_path fallback_table [''nav.audiograb''] = Some (JStr ''AudioGrab'')
   \<and> own_path fallback_table [''nav.privacy''] = Some (JStr ''Privacy'')"
    by (simp add: fallback_table_def)
  from 1 2 3 4 5 show ?thesis by blast
qed

theorem loadTranslations_fallback_witness:
  "requested (fst (snd (loadTranslations sample_world sample_i18n ''fr''))) = [''fr'', ''en'']
   \<and> requested (fst (snd (loadTranslations (sample_world\<lparr>fetch := \<lambda>lang. NetworkError\<rparr>)
        sample_i18n ''fr''))) = [''fr'', ''en'']
   \<and> translationTable (snd (snd (loadTranslations (sample_world\<lparr>fetch := \<lambda>lang. NetworkError\<rparr>)
        sample_i18n ''fr''))) = fallback_table
   \<and> requested (fst (snd (loadTranslations (sample_world\<lparr>fetch := \<lambda>lang. NetworkError\<rparr>)
        sample_i18n ''en''))) = [''en'']
   \<and> translationTable (snd (snd (loadTranslations (sample_world\<lparr>fetch := \<lambda>lang. NetworkError\<rparr>)
        sample_i18n ''en''))) = fallback_table"
proof -
  note a = loadTranslations_fallback [of sample_world "''fr''" sample_i18n]
  note b = loadTranslations_fallback
    [of "sample_world\<lparr>fetch := \<lambda>lang. NetworkError\<rparr>" "''fr''" sample_i18n]
  note c = loadTranslations_fallback
    [of "sample_world\<lparr>fetch := \<lambda>lang. NetworkError\<rparr>" "''en''" sample_i18n]
  have 1: "request_fails sample_world ''fr''" "requested sample_world = []"
    by (simp_all add: request_fails_def sample_world_def sample_fetch_def)
  have 2: "request_fails (sample_world\<lparr>fetch := \<lambda>lang. NetworkError\<rparr>) l" for l
    by (simp add: request_fails_def)
  have 3: "requested (sample_world\<lparr>fetch := \<lambda>lang. NetworkError\<rparr>) = []"
    by (simp add: sample_world_def)
  have 4: "''fr'' \<noteq> ''en''" by simp
  from a 1 4 have A: "requested (fst (snd (loadTranslations sample_world sample_i18n ''fr'')))
      = [''fr'', ''en'']"
    by simp
  from b 2 3 4 have B: "requested (fst (snd (loadTranslations
        (sample_world\<lparr>fetch := \<lambda>lang. NetworkError\<rparr>) sample_i18n ''fr''))) = [''fr'', ''en'']
      \<and> translationTable (snd (snd (loadTranslations
        (sample_world\<lparr>fetch := \<lambda>lang. NetworkError\<rparr>) sample_i18n ''fr''))) = fallback_table"
    by simp
  from c 2 3 have C: "requested (fst (snd (loadTranslations
        (sample_world\<lparr>fetch := \<lambda>lang. NetworkError\<rparr>) sample_i18n ''en''))) = [''en'']
      \<and> translationTable (snd (snd (loadTranslations
        (sample_world\<lparr>fetch := \<lambda>lang. NetworkError\<rparr>) sample_i18n ''en''))) = fallback_table"
    by simp
  from A B C show ?thesis by blast
qed

section \<open>Language resolution\<close>

lemma findIndex_Some: "findIndex p xs = Some i \<Longrightarrow> i < length xs \<and> p (xs ! i)"
  by (induction xs arbitrary: i) (auto split: if_splits option.splits)

lemma findIndex_None: "(findIndex p xs = None) = (\<forall>x \<in> set xs. \<not> p x)"
  by (induction xs) (auto split: option.splits)

lemma getLanguageFromUrl_supported: "getLanguageFromUrl w = Some u \<Longrightarrow> supported u"
  by (auto simp: getLanguageFromUrl_def supported_def is_lang_segment_ci_def
      split: option.splits dest!: findIndex_Some)

lemma getLanguageFromUrl_None:
  "(getLanguageFromUrl w = None) = (\<forall>s \<in> set (path_segments w). \<not> is_lang_segment_ci s)"
  by (simp add: getLanguageFromUrl_def findIndex_None [symmetric] split: option.splits)

lemma toLowerChar_e: "toLowerChar c = CHR ''e'' \<longleftrightarrow> c = CHR ''e'' \<or> c = CHR ''E''"
  by (auto simp: toLowerChar_def split: if_splits)

lemma toLowerChar_s: "toLowerChar c = CHR ''s'' \<longleftrightarrow> c = CHR ''s'' \<or> c = CHR ''S''"
  by (auto simp: toLowerChar_def split: if_splits)

lemma startsWith_lower_es: "startsWith (toLowerCase s) ''es'' = begins_es s"
proof (cases s)
  case Nil
  then show ?thesis by (simp add: startsWith_def toLowerCase_def)
next
  case (Cons a t)
  then show ?thesis
    by (cases t) (auto simp: startsWith_def toLowerCase_def toLowerChar_e toLowerChar_s)
qed

lemma getBrowserLanguage_eq:
  "getBrowserLanguage w =
     (case js_or (nav_language w) (nav_userLanguage w) of
        JStr s \<Rightarrow> if begins_es s then ''es'' else ''en''
      | _ \<Rightarrow> ''en'')"
proof -
  define v where "v = js_or (nav_language w) (nav_userLanguage w)"
  have "(case (case js_or v (JStr []) of
            JStr s \<Rightarrow> Inr (if startsWith (toLowerCase s) ''es'' then ''es'' else ''en'')
          | _ \<Rightarrow> Inl TypeError) of Inr l \<Rightarrow> l | Inl e \<Rightarrow> ''en'')
      = (case v of JStr s \<Rightarrow> if begins_es s then ''es'' else ''en'' | _ \<Rightarrow> ''en'')"
    by (cases v) (auto simp: js_or_def startsWith_lower_es)
  then show ?thesis
    by (simp add: getBrowserLanguage_def browserLanguage_try_def v_def)
qed

lemma getBrowserLanguage_guarded:
  "supported (getBrowserLanguage w)
   \<and> (\<forall>s. js_or (nav_language w) (nav_userLanguage w) = JStr s \<longrightarrow>
         getBrowserLanguage w = (if begins_es s then ''es'' else ''en''))
   \<and> ((\<forall>s. js_or (nav_language w) (nav_userLanguage w) \<noteq> JStr s) \<longrightarrow>
         getBrowserLanguage w = ''en'')"
  unfolding getBrowserLanguage_eq
  by (cases "js_or (nav_language w) (nav_userLanguage w)") (auto simp: supported_def)

text \<open>
  C5. For every browser-reported language, \<open>getBrowserLanguage\<close> returns without raising,
  \<open>es\<close> exactly when the reported string begins with \<open>es\<close> in any letter case and \<open>en\<close>
  otherwise, also when the browser reports nothing. The guarded \<open>getBrowserLanguage\<close> of
  i18n.js does so (\<open>getBrowserLanguage_guarded\<close>). The oldest variant (part_000 20-23) does
  not: it compares without lower-casing, so \<open>ES-MX\<close> gives \<open>en\<close>, and it raises a TypeError
  when the browser reports no language.
\<close>

theorem getBrowserLanguage_simple_diverges:
  "getBrowserLanguage_simple (sample_world\<lparr>nav_language := JStr ''ES-MX''\<rparr>) = Inr ''en''
   \<and> getBrowserLanguage (sample_world\<lparr>nav_language := JStr ''ES-MX''\<rparr>) = ''es''
   \<and> getBrowserLanguage_simple (sample_world\<lparr>nav_language := JUndefined\<rparr>) = Inl TypeError
   \<and> getBrowserLanguage (sample_world\<lparr>nav_language := JUndefined\<rparr>) = ''en''"
  by (simp add: getBrowserLanguage_simple_def getBrowserLanguage_def browserLanguage_try_def
      js_or_def sample_world_def startsWith_def toLowerCase_def toLowerChar_def)

lemma supported_nonempty: "supported l \<Longrightarrow> l \<noteq> []"
  by (auto simp: supported_def)

lemma constructor_currentLang:
  "currentLang (snd (constructor w)) =
     or_else (or_opt (or_opt (getLanguageFromUrl w) (getSavedLanguage w))
                (Some (getBrowserLanguage w))) ''en''"
  by (simp add: constructor_def Let_def)

text \<open>
  The precedence of the constructor of i18n.js. A language segment in the path (compared
  without regard to case) wins and is applied in lower case. Without one, a persisted
  preference that is not empty is applied as it is. Without either, the normalised browser
  language is applied, which is always \<open>en\<close> or \<open>es\<close> (so the final default \<open>en\<close> is never
  reached). For a supported code \<open>L\<close>: when the persisted preference is \<open>L\<close> and the path
  has no language segment, \<open>currentLang\<close> is \<open>L\<close> whatever the browser reports, also when it
  reports nothing. The oldest variant does the same only when the browser reports a
  language string.
\<close>

lemma constructor_precedence:
  "(\<forall>u. getLanguageFromUrl w = Some u \<longrightarrow> supported u \<and> currentLang (snd (constructor w)) = u)
   \<and> (\<forall>u. getLanguageFromUrl w = Some u \<longrightarrow>
         (\<exists>s \<in> set (path_segments w). is_lang_segment_ci s \<and> u = toLowerCase s))
   \<and> ((getLanguageFromUrl w = None) = (\<forall>s \<in> set (path_segments w). \<not> is_lang_segment_ci s))
   \<and> (\<forall>L. getLanguageFromUrl w = None \<and> getSavedLanguage w = Some L \<and> L \<noteq> [] \<longrightarrow>
         currentLang (snd (constructor w)) = L)
   \<and> (getLanguageFromUrl w = None \<and> (getSavedLanguage w = None \<or> getSavedLanguage w = Some []) \<longrightarrow>
         currentLang (snd (constructor w)) = getBrowserLanguage w)
   \<and> supported (getBrowserLanguage w)
   \<and> (\<forall>L. supported L \<and> getLanguageFromUrl w = None \<and> storage_readable w \<and> stored w = Some L \<longrightarrow>
         currentLang (snd (constructor w)) = L)
   \<and> (\<forall>L s. supported L \<and> storage_readable w \<and> stored w = Some L
           \<and> js_or (nav_language w) (nav_userLanguage w) = JStr s \<longrightarrow>
         (\<exists>w'. constructor_simple w = Inr (w', \<lparr>currentLang = L, translationTable = JObj []\<rparr>)))"
proof -
  have b: "supported (getBrowserLanguage w)"
    using getBrowserLanguage_guarded by blast
  then have bn: "getBrowserLanguage w \<noteq> []"
    by (rule supported_nonempty)
  have 1: "\<forall>u. getLanguageFromUrl w = Some u \<longrightarrow>
        supported u \<and> currentLang (snd (constructor w)) = u"
    using getLanguageFromUrl_supported [of w] supported_nonempty
    by (auto simp: constructor_currentLang or_opt_def)
  have 3: "\<forall>L. getLanguageFromUrl w = None \<and> getSavedLanguage w = Some L \<and> L \<noteq> [] \<longrightarrow>
         currentLang (snd (constructor w)) = L"
    by (auto simp: constructor_currentLang or_opt_def)
  have 4: "getLanguageFromUrl w = None \<and> (getSavedLanguage w = None \<or> getSavedLanguage w = Some []) \<longrightarrow>
         currentLang (snd (constructor w)) = getBrowserLanguage w"
    using bn by (auto simp: constructor_currentLang or_opt_def)
  have 6: "\<forall>L. supported L \<and> getLanguageFromUrl w = None \<and> storage_readable w \<and> stored w = Some L \<longrightarrow>
         currentLang (snd (constructor w)) = L"
    using supported_nonempty
    by (auto simp: constructor_currentLang or_opt_def getSavedLanguage_def localStorage_getItem_def)
  have 7: "\<forall>L s. supported L \<and> storage_readable w \<and> stored w = Some L
           \<and> js_or (nav_language w) (nav_userLanguage w) = JStr s \<longrightarrow>
         (\<exists>w'. constructor_simple w = Inr (w', \<lparr>currentLang = L, translationTable = JObj []\<rparr>))"
    using supported_nonempty
    by (auto simp: constructor_simple_def getSavedLanguage_simple_def localStorage_getItem_def
        getBrowserLanguage_simple_def or_opt_def Let_def)
  have 2: "\<forall>u. getLanguageFromUrl w = Some u \<longrightarrow>
         (\<exists>s \<in> set (path_segments w). is_lang_segment_ci s \<and> u = toLowerCase s)"
    by (auto simp: getLanguageFromUrl_def split: option.splits dest!: findIndex_Some)
  from 1 2 getLanguageFromUrl_None [of w] 3 4 b 6 7 show ?thesis by blast
qed

lemma constructor_precedence_examples:
  "currentLang (snd (constructor (sample_world\<lparr>nav_language := JStr ''en-US''\<rparr>))) = ''es''
   \<and> currentLang (snd (constructor (sample_world\<lparr>pathname := ''/audiograb-site/EN/index.html''\<rparr>)))
       = ''en''
   \<and> currentLang (snd (constructor (sample_world\<lparr>stored := None\<rparr>))) = ''es''
   \<and> (\<exists>w'. constructor_simple (sample_world\<lparr>nav_language := JStr ''en-US''\<rparr>)
         = Inr (w', \<lparr>currentLang = ''es'', translationTable = JObj []\<rparr>))"
proof -
  note a = constructor_precedence [of "sample_world\<lparr>nav_language := JStr ''en-US''\<rparr>"]
  note b = constructor_precedence [of "sample_world\<lparr>pathname := ''/audiograb-site/EN/index.html''\<rparr>"]
  note c = constructor_precedence [of "sample_world\<lparr>stored := None\<rparr>"]
  have 1: "getLanguageFromUrl (sample_world\<lparr>nav_language := JStr ''en-US''\<rparr>) = None"
    "storage_readable (sample_world\<lparr>nav_language := JStr ''en-US''\<rparr>)"
    "stored (sample_world\<lparr>nav_language := JStr ''en-US''\<rparr>) = Some ''es''"
    "js_or (nav_language (sample_world\<lparr>nav_language := JStr ''en-US''\<rparr>))
       (nav_userLanguage (sample_world\<lparr>nav_language := JStr ''en-US''\<rparr>)) = JStr ''en-US''"
    "supported ''es''"
    by (simp_all add: getLanguageFromUrl_def path_segments_def sample_world_def
        is_lang_segment_ci_def toLowerCase_def toLowerChar_def js_or_def supported_def)
  have 2: "getLanguageFromUrl (sample_world\<lparr>pathname := ''/audiograb-site/EN/index.html''\<rparr>)
      = Some ''en''"
    by (simp add: getLanguageFromUrl_def path_segments_def sample_world_def
        is_lang_segment_ci_def toLowerCase_def toLowerChar_def)
  have 3: "getLanguageFromUrl (sample_world\<lparr>stored := None\<rparr>) = None"
    "getSavedLanguage (sample_world\<lparr>stored := None\<rparr>) = None"
    "getBrowserLanguage (sample_world\<lparr>stored := None\<rparr>) = ''es''"
    by (simp_all add: getLanguageFromUrl_def path_segments_def sample_world_def
        is_lang_segment_ci_def toLowerCase_def toLowerChar_def getSavedLanguage_def
        localStorage_getItem_def getBrowserLanguage_def browserLanguage_try_def js_or_def
        startsWith_def)
  from a 1 have A: "currentLang (snd (constructor (sample_world\<lparr>nav_language := JStr ''en-US''\<rparr>))) = ''es''"
    by blast
  from a 1 have D: "\<exists>w'. constructor_simple (sample_world\<lparr>nav_language := JStr ''en-US''\<rparr>)
         = Inr (w', \<lparr>currentLang = ''es'', translationTable = JObj []\<rparr>)"
    by blast
  from b 2 have B: "currentLang (snd (constructor (sample_world\<lparr>pathname := ''/audiograb-site/EN/index.html''\<rparr>))) = ''en''"
    by blast
  from c 3 have C: "currentLang (snd (constructor (sample_world\<lparr>stored := None\<rparr>))) = ''es''"
    by metis
  from A B C D show ?thesis by blast
qed

text \<open>
  C2. The constructor resolves the language by the precedence path segment, persisted
  preference, browser language, \<open>en\<close>; for a supported code \<open>L\<close>, a persisted preference
  \<open>L\<close> with no path segment and no overriding browser signal gives \<open>currentLang = L\<close>. The
  constructor of i18n.js does so (\<open>constructor_precedence\<close>). The constructor of the oldest
  variant (part_000 3-13) does not when the browser reports no language: with the
  persisted preference \<open>es\<close> it raises the TypeError of its unguarded
  \<open>getBrowserLanguage\<close> and sets no \<open>currentLang\<close>, where i18n.js sets \<open>es\<close>.
\<close>

theorem constructor_simple_raises:
  "constructor_simple (sample_world\<lparr>nav_language := JUndefined\<rparr>) = Inl TypeError
   \<and> storage_readable (sample_world\<lparr>nav_language := JUndefined\<rparr>)
   \<and> stored (sample_world\<lparr>nav_language := JUndefined\<rparr>) = Some ''es''
   \<and> supported ''es''
   \<and> getLanguageFromUrl (sample_world\<lparr>nav_language := JUndefined\<rparr>) = None
   \<and> currentLang (snd (constructor (sample_world\<lparr>nav_language := JUndefined\<rparr>))) = ''es''"
proof -
  have 1: "constructor_simple (sample_world\<lparr>nav_language := JUndefined\<rparr>) = Inl TypeError"
    by (simp add: constructor_simple_def getSavedLanguage_simple_def localStorage_getItem_def
        getBrowserLanguage_simple_def js_or_def sample_world_def)
  have 2: "storage_readable (sample_world\<lparr>nav_language := JUndefined\<rparr>)"
    "stored (sample_world\<lparr>nav_language := JUndefined\<rparr>) = Some ''es''" "supported ''es''"
    by (simp_all add: sample_world_def supported_def)
  have 3: "getLanguageFromUrl (sample_world\<lparr>nav_language := JUndefined\<rparr>) = None"
    by (simp add: getLanguageFromUrl_def path_segments_def sample_world_def
        is_lang_segment_ci_def toLowerCase_def toLowerChar_def)
  have 4: "getSavedLanguage (sample_world\<lparr>nav_language := JUndefined\<rparr>) = Some ''es''"
    by (simp add: getSavedLanguage_def localStorage_getItem_def sample_world_def)
  have 5: "currentLang (snd (constructor (sample_world\<lparr>nav_language := JUndefined\<rparr>))) = ''es''"
    by (simp add: constructor_currentLang 3 4 or_opt_def)
  from 1 2 3 5 show ?thesis by simp
qed

section \<open>Stored and active language codes\<close>

lemma stored_navigateToLanguage: "stored (navigateToLanguage w l) = stored w"
  by (simp add: navigateToLanguage_def Let_def)

lemma stored_fetch_issue: "stored (fetch_issue w l) = stored w"
  by (simp add: fetch_issue_def)

lemma saveLanguage_cases:
  "saveLanguage w st lang =
     (if storage_writable w then (w\<lparr>stored := Some lang\<rparr>, st\<lparr>currentLang := lang\<rparr>) else (w, st))"
  by (simp add: saveLanguage_def localStorage_setItem_def)

lemma changeLanguage_effect:
  "lang \<noteq> currentLang st \<Longrightarrow> storage_writable w \<Longrightarrow>
     stored (fst (changeLanguage w st lang)) = Some lang
     \<and> currentLang (snd (changeLanguage w st lang)) = lang"
  by (simp add: changeLanguage_def saveLanguage_cases stored_navigateToLanguage
      stored_fetch_issue)

lemma changeLanguage_cases:
  "(stored (fst (changeLanguage w st lang)) = stored w
      \<or> stored (fst (changeLanguage w st lang)) = Some lang)
   \<and> (currentLang (snd (changeLanguage w st lang)) = currentLang st
      \<or> currentLang (snd (changeLanguage w st lang)) = lang)"
  by (simp add: changeLanguage_def saveLanguage_cases stored_navigateToLanguage
      stored_fetch_issue)

lemma constructor_stored: "stored (fst (constructor w)) = stored w"
  by (simp add: constructor_def init_def setupHrefLang_def updateInternalLinks_def
      fetch_issue_def Let_def)

lemma loadTranslations_frame:
  "currentLang (snd (snd (loadTranslations w st lang))) = currentLang st
   \<and> stored (fst (snd (loadTranslations w st lang))) = stored w"
proof -
  obtain e w' t where "loadTranslations w st lang = (e, w', st\<lparr>translationTable := t\<rparr>)"
      "stored w' = stored w"
    using loadTranslations_run [of w st lang] by blast
  then show ?thesis by simp
qed

text \<open>
  An unsupported code is stored and becomes the active language: \<open>changeLanguage("fr")\<close>
  writes \<open>fr\<close> to the storage and to \<open>currentLang\<close>, and the constructor applies a persisted
  \<open>fr\<close>.
\<close>

theorem unsupported_code_counterexample:
  "stored (fst (changeLanguage sample_world sample_i18n ''fr'')) = Some ''fr''
   \<and> currentLang (snd (changeLanguage sample_world sample_i18n ''fr'')) = ''fr''
   \<and> currentLang (snd (constructor (sample_world\<lparr>stored := Some ''fr''\<rparr>))) = ''fr''
   \<and> \<not> supported ''fr''"
proof -
  have 1: "''fr'' \<noteq> currentLang sample_i18n" "storage_writable sample_world"
    by (simp_all add: sample_i18n_def sample_world_def)
  have 2: "getLanguageFromUrl (sample_world\<lparr>stored := Some ''fr''\<rparr>) = None"
    by (simp add: getLanguageFromUrl_def path_segments_def sample_world_def
        is_lang_segment_ci_def toLowerCase_def toLowerChar_def)
  have 3: "getSavedLanguage (sample_world\<lparr>stored := Some ''fr''\<rparr>) = Some ''fr''"
    by (simp add: getSavedLanguage_def localStorage_getItem_def sample_world_def)
  have 4: "currentLang (snd (constructor (sample_world\<lparr>stored := Some ''fr''\<rparr>))) = ''fr''"
    by (simp add: constructor_currentLang 2 3 or_opt_def)
  have 5: "\<not> supported ''fr''"
    by (simp add: supported_def)
  from changeLanguage_effect [OF 1] 4 5 show ?thesis by simp
qed

text \<open>
  C1, as the code has it. Nothing validates a language code. \<open>changeLanguage\<close> stores and
  applies the code it is given, whenever it differs from the active one and the storage
  accepts the write; the constructor applies a persisted value as it is and never writes
  the storage; \<open>loadTranslations\<close> changes neither \<open>currentLang\<close> nor the stored value, also
  when it falls back to the English table. Only the path and the browser signals are always
  \<open>en\<close> or \<open>es\<close>. So the stored value and \<open>currentLang\<close> are supported codes as long as the
  persisted value, if any, and every code passed to \<open>changeLanguage\<close> are supported.
\<close>

theorem language_codes_as_given:
  "(lang \<noteq> currentLang st \<and> storage_writable w \<longrightarrow>
      stored (fst (changeLanguage w st lang)) = Some lang
      \<and> currentLang (snd (changeLanguage w st lang)) = lang)
   \<and> (supported lang \<and> supported (currentLang st) \<and> (\<forall>s. stored w = Some s \<longrightarrow> supported s) \<longrightarrow>
      supported (currentLang (snd (changeLanguage w st lang)))
      \<and> (\<forall>s. stored (fst (changeLanguage w st lang)) = Some s \<longrightarrow> supported s))
   \<and> ((\<forall>s. getSavedLanguage w = Some s \<longrightarrow> s = [] \<or> supported s) \<longrightarrow>
      supported (currentLang (snd (constructor w))))
   \<and> stored (fst (constructor w)) = stored w
   \<and> (\<forall>u. getLanguageFromUrl w = Some u \<longrightarrow> supported u)
   \<and> supported (getBrowserLanguage w)
   \<and> currentLang (snd (snd (loadTranslations w st lang))) = currentLang st
   \<and> stored (fst (snd (loadTranslations w st lang))) = stored w"
proof -
  have b: "supported (getBrowserLanguage w)"
    using getBrowserLanguage_guarded by blast
  have 1: "lang \<noteq> currentLang st \<and> storage_writable w \<longrightarrow>
      stored (fst (changeLanguage w st lang)) = Some lang
      \<and> currentLang (snd (changeLanguage w st lang)) = lang"
    using changeLanguage_effect by blast
  have 2: "supported lang \<and> supported (currentLang st) \<and> (\<forall>s. stored w = Some s \<longrightarrow> supported s) \<longrightarrow>
      supported (currentLang (snd (changeLanguage w st lang)))
      \<and> (\<forall>s. stored (fst (changeLanguage w st lang)) = Some s \<longrightarrow> supported s)"
    using changeLanguage_cases [of w st lang] by auto
  have 3: "(\<forall>s. getSavedLanguage w = Some s \<longrightarrow> s = [] \<or> supported s) \<longrightarrow>
      supported (currentLang (snd (constructor w)))"
    using b getLanguageFromUrl_supported [of w] supported_nonempty
    by (cases "getLanguageFromUrl w"; cases "getSavedLanguage w")
       (auto simp: constructor_currentLang or_opt_def)
  have 5: "\<forall>u. getLanguageFromUrl w = Some u \<longrightarrow> supported u"
    using getLanguageFromUrl_supported by blast
  from 1 2 3 constructor_stored [of w] 5 b loadTranslations_frame [of w st lang]
  show ?thesis by blast
qed

theorem language_codes_as_given_witness:
  "stored (fst (changeLanguage sample_world sample_i18n ''en'')) = Some ''en''
   \<and> currentLang (snd (changeLanguage sample_world sample_i18n ''en'')) = ''en''
   \<and> supported (currentLang (snd (constructor sample_world)))
   \<and> stored (fst (constructor sample_world)) = Some ''es''
   \<and> currentLang (snd (snd (loadTranslations sample_world sample_i18n ''fr''))) = ''es''"
proof -
  note t = language_codes_as_given [of "''en''" sample_i18n sample_world]
  have 1: "''en'' \<noteq> currentLang sample_i18n \<and> storage_writable sample_world"
    by (simp add: sample_i18n_def sample_world_def)
  have 2: "\<forall>s. getSavedLanguage sample_world = Some s \<longrightarrow> s = [] \<or> supported s"
    by (simp add: getSavedLanguage_def localStorage_getItem_def sample_world_def supported_def)
  have 3: "stored sample_world = Some ''es''" "currentLang sample_i18n = ''es''"
    by (simp_all add: sample_i18n_def sample_world_def)
  from t 1 have a: "stored (fst (changeLanguage sample_world sample_i18n ''en'')) = Some ''en''
      \<and> currentLang (snd (changeLanguage sample_world sample_i18n ''en'')) = ''en''"
    by blast
  from t 2 have b: "supported (currentLang (snd (constructor sample_world)))"
    by blast
  from t have "stored (fst (constructor sample_world)) = stored sample_world"
    by blast
  then have c: "stored (fst (constructor sample_world)) = Some ''es''"
    by (simp add: 3)
  have "currentLang (snd (snd (loadTranslations sample_world sample_i18n ''fr'')))
      = currentLang sample_i18n"
    using language_codes_as_given [of "''fr''" sample_i18n sample_world] by blast
  then have d: "currentLang (snd (snd (loadTranslations sample_world sample_i18n ''fr''))) = ''es''"
    by (simp add: 3)
  from a b c d show ?thesis by blast
qed

section \<open>The writes of applyTranslations\<close>

text \<open>
  The writes of \<open>applyTranslations\<close> of i18n.js when no property read raises: for each
  element with a key, what \<open>content_writes\<close> gives for the value of the key, then the
  titles.
\<close>

lemma getTranslation_quiet:
  assumes "quiet B"
  shows "getTranslation B table key = Inr (translation_of B table key)"
proof (cases "getTranslation B table key")
  case (Inl e)
  then have "\<exists>v k. B v k = Inl e"
    unfolding getTranslation_def by (rule reduce_raises)
  with assms show ?thesis by (simp add: quiet_def)
next
  case (Inr v)
  then show ?thesis by (simp add: translation_of_def)
qed

lemma translate_element_eq:
  "quiet (builtin w) \<Longrightarrow>
   translate_element st attr writes p w =
     (None, w\<lparr>dom_writes := dom_writes w @ element_writes (builtin w) st attr writes p\<rparr>)"
  by (simp add: translate_element_def element_writes_def getTranslation_quiet split: option.splits)

lemma for_each_translate:
  "quiet (builtin w) \<Longrightarrow>
   for_each (translate_element st attr writes) ps w =
     (None, w\<lparr>dom_writes :=
        dom_writes w @ concat (map (element_writes (builtin w) st attr writes) ps)\<rparr>)"
proof (induction ps arbitrary: w)
  case Nil
  show ?case by simp
next
  case (Cons p ps)
  have "for_each (translate_element st attr writes) (p # ps) w
      = for_each (translate_element st attr writes) ps
          (w\<lparr>dom_writes := dom_writes w @ element_writes (builtin w) st attr writes p\<rparr>)"
    using translate_element_eq [OF Cons.prems, of st attr writes p] by simp
  then show ?case
    using Cons.prems by (simp add: Cons.IH)
qed

lemma concat_map_filter_attr:
  "concat (map (element_writes B st attr writes) (filter (\<lambda>p. attr (snd p) \<noteq> None) ps))
     = concat (map (element_writes B st attr writes) ps)"
  by (induction ps) (auto simp: element_writes_def)

lemma apply_with_writes:
  assumes "quiet (builtin w)"
  shows "apply_with writes w st =
     (None, w\<lparr>dom_writes := dom_writes w
        @ concat (map (element_writes (builtin w) st data_i18n writes) (enumerate 0 (elements w)))
        @ concat (map (element_writes (builtin w) st data_i18n_title title_writes)
                    (enumerate 0 (elements w)))\<rparr>)"
proof -
  have 1: "for_each (translate_element st data_i18n writes) (querySelectorAll_attr w data_i18n) w
      = (None, w\<lparr>dom_writes := dom_writes w
          @ concat (map (element_writes (builtin w) st data_i18n writes)
              (enumerate 0 (elements w)))\<rparr>)"
    unfolding for_each_translate [OF assms] querySelectorAll_attr_def concat_map_filter_attr ..
  have 2: "for_each (translate_element st data_i18n_title title_writes)
        (querySelectorAll_attr w' data_i18n_title) w'
      = (None, w'\<lparr>dom_writes := dom_writes w'
          @ concat (map (element_writes (builtin w') st data_i18n_title title_writes)
              (enumerate 0 (elements w')))\<rparr>)" if "quiet (builtin w')" for w'
    unfolding for_each_translate [OF that] querySelectorAll_attr_def concat_map_filter_attr ..
  show ?thesis
    using assms by (simp add: apply_with_def 1 2)
qed

lemma applyTranslations_writes:
  "quiet (builtin w) \<Longrightarrow>
   applyTranslations w st =
     (None, w\<lparr>dom_writes := dom_writes w
        @ concat (map (element_writes (builtin w) st data_i18n content_writes)
                    (enumerate 0 (elements w)))
        @ concat (map (element_writes (builtin w) st data_i18n_title title_writes)
                    (enumerate 0 (elements w)))\<rparr>)"
  by (simp add: applyTranslations_def apply_with_writes)

text \<open>
  C6. In \<open>applyTranslations\<close>, an element whose key resolves to nothing is not written to;
  when a value is found, an input placeholder receives it as its placeholder, a title as its
  text content, a metadata element as its \<open>content\<close> attribute and any other element as inner
  HTML. On a page with a link, a \<open>META\<close>, a \<open>TITLE\<close> and a text \<open>INPUT\<close> whose keys all
  resolve, the code does otherwise in two places. The oldest variant (part_000 54-60) has no
  branch for \<open>TITLE\<close> and \<open>META\<close> and writes inner HTML to both, where i18n.js writes the
  text content and the \<open>content\<close> attribute. And in every variant the placeholder branch asks
  for \<open>element.type === 'placeholder'\<close>, which is not a type an input has: the text input
  receives inner HTML, and its placeholder is not written.
\<close>

theorem applyTranslations_writes_diverge:
  "applyTranslations_simple sample_world sample_i18n =
     (None, sample_world\<lparr>dom_writes :=
        [(0, SetInnerHTML (JStr ''Home'')),
         (1, SetInnerHTML (JStr ''Download audio'')),
         (2, SetInnerHTML (JStr ''AudioGrab'')),
         (3, SetInnerHTML (JStr ''Email'')),
         (3, SetTitle (JStr ''Your address''))]\<rparr>)
   \<and> applyTranslations sample_world sample_i18n =
     (None, sample_world\<lparr>dom_writes :=
        [(0, SetInnerHTML (JStr ''Home'')),
         (1, SetContentAttr (JStr ''Download audio'')),
         (2, SetTextContent (JStr ''AudioGrab'')),
         (3, SetInnerHTML (JStr ''Email'')),
         (3, SetTitle (JStr ''Your address''))]\<rparr>)"
  by (simp add: applyTranslations_simple_def applyTranslations_def apply_with_def
      querySelectorAll_attr_def sample_world_def sample_elements_def sample_i18n_def
      sample_table_def translate_element_def getTranslation_def and_get_def
      content_writes_simple_def content_writes_def title_writes_def)

section \<open>Internal links and alternate links\<close>

lemma rewrite_link_guarded:
  "startsWith href ''http'' \<or> startsWith href ''#'' \<or> startsWith href ''/'' \<Longrightarrow>
     rewrite_link lang has (Some href) = Some href"
  by (auto simp: rewrite_link_def)

lemma rewrite_link_file:
  "href \<in> set internal_files \<Longrightarrow>
     rewrite_link lang has (Some href) = (if has then Some href else Some (lang @ ''/'' @ href))"
  by (auto simp: rewrite_link_def internal_files_def startsWith_def strip_leading_slashes_def)

lemma updateInternalLinks_anchor:
  "i < length (anchors w) \<Longrightarrow>
     anchors (updateInternalLinks w st) ! i =
       (if selected_link (anchors w ! i)
        then rewrite_link (or_else (Some (currentLang st)) (or_else (getLanguageFromUrl w) ''en''))
               (hasLang w) (anchors w ! i)
        else anchors w ! i)"
  by (simp add: updateInternalLinks_def Let_def)

lemma updateInternalLinks_hasLang:
  assumes "hasLang w"
  shows "updateInternalLinks w st = w"
proof -
  have m: "map (\<lambda>a. if selected_link a then rewrite_link l True a else a) xs = xs" for l xs
    by (induction xs) (auto simp: selected_link_def rewrite_link_def split: option.splits)
  have eq: "hasLang w = True"
    using assms by simp
  show ?thesis
    unfolding updateInternalLinks_def Let_def eq m by simp
qed

text \<open>
  C8. \<open>updateInternalLinks\<close> keeps every link in place. When the path of the page has no
  segment \<open>en\<close> or \<open>es\<close> and the current language is \<open>es\<close>, a link with
  \<open>href="privacy.html"\<close> becomes \<open>href="es/privacy.html"\<close>. When the path has such a segment,
  nothing is changed. A link whose \<open>href\<close> begins with \<open>http\<close>, \<open>#\<close> or \<open>/\<close> is never
  rewritten, and neither is any link whose \<open>href\<close> is not one of the three page names.
\<close>

theorem updateInternalLinks_rewrites:
  "length (anchors (updateInternalLinks w st)) = length (anchors w)
   \<and> (\<forall>i. i < length (anchors w) \<and> \<not> hasLang w \<and> currentLang st = ''es''
          \<and> anchors w ! i = Some ''privacy.html'' \<longrightarrow>
        anchors (updateInternalLinks w st) ! i = Some ''es/privacy.html'')
   \<and> (hasLang w \<longrightarrow> updateInternalLinks w st = w)
   \<and> (\<forall>i href. i < length (anchors w) \<and> anchors w ! i = Some href
          \<and> (startsWith href ''http'' \<or> startsWith href ''#'' \<or> startsWith href ''/'') \<longrightarrow>
        anchors (updateInternalLinks w st) ! i = Some href)
   \<and> (\<forall>i. i < length (anchors w) \<and> \<not> selected_link (anchors w ! i) \<longrightarrow>
        anchors (updateInternalLinks w st) ! i = anchors w ! i)"
proof -
  have 1: "length (anchors (updateInternalLinks w st)) = length (anchors w)"
    by (simp add: updateInternalLinks_def Let_def)
  have 2: "\<forall>i. i < length (anchors w) \<and> \<not> hasLang w \<and> currentLang st = ''es''
          \<and> anchors w ! i = Some ''privacy.html'' \<longrightarrow>
        anchors (updateInternalLinks w st) ! i = Some ''es/privacy.html''"
    by (simp add: updateInternalLinks_anchor selected_link_def rewrite_link_file internal_files_def)
  have 3: "hasLang w \<longrightarrow> updateInternalLinks w st = w"
    using updateInternalLinks_hasLang by blast
  have 4: "\<forall>i href. i < length (anchors w) \<and> anchors w ! i = Some href
          \<and> (startsWith href ''http'' \<or> startsWith href ''#'' \<or> startsWith href ''/'') \<longrightarrow>
        anchors (updateInternalLinks w st) ! i = Some href"
    by (auto simp: updateInternalLinks_anchor rewrite_link_guarded)
  have 5: "\<forall>i. i < length (anchors w) \<and> \<not> selected_link (anchors w ! i) \<longrightarrow>
        anchors (updateInternalLinks w st) ! i = anchors w ! i"
    by (simp add: updateInternalLinks_anchor)
  from 1 2 3 4 5 show ?thesis by blast
qed

theorem updateInternalLinks_rewrites_witness:
  "anchors (updateInternalLinks sample_world sample_i18n) ! 0 = Some ''es/privacy.html''
   \<and> anchors (updateInternalLinks sample_world sample_i18n) ! 1 = Some ''https://example.org/''
   \<and> anchors (updateInternalLinks sample_world sample_i18n) ! 2 = Some ''#top''
   \<and> anchors (updateInternalLinks sample_world sample_i18n) ! 3 = Some ''/index.html''
   \<and> updateInternalLinks (sample_world\<lparr>pathname := ''/audiograb-site/es/index.html''\<rparr>) sample_i18n
       = sample_world\<lparr>pathname := ''/audiograb-site/es/index.html''\<rparr>"
proof -
  note t = updateInternalLinks_rewrites [of sample_world sample_i18n]
  note u = updateInternalLinks_rewrites
    [of "sample_world\<lparr>pathname := ''/audiograb-site/es/index.html''\<rparr>" sample_i18n]
  have h: "\<not> hasLang sample_world" "currentLang sample_i18n = ''es''"
    "hasLang (sample_world\<lparr>pathname := ''/audiograb-site/es/index.html''\<rparr>)"
    by (simp_all add: hasLang_def path_segments_def sample_world_def sample_i18n_def)
  have a: "anchors sample_world = [Some ''privacy.html'', Some ''https://example.org/'',
      Some ''#top'', Some ''/index.html'', None]"
    by (simp add: sample_world_def)
  have s: "startsWith ''https://example.org/'' ''http''" "startsWith ''#top'' ''#''"
    "startsWith ''/index.html'' ''/''"
    by (simp_all add: startsWith_def)
  have 0: "0 < length (anchors sample_world) \<and> \<not> hasLang sample_world
      \<and> currentLang sample_i18n = ''es'' \<and> anchors sample_world ! 0 = Some ''privacy.html''"
    by (simp add: h a)
  have 1: "1 < length (anchors sample_world)
      \<and> anchors sample_world ! 1 = Some ''https://example.org/''
      \<and> (startsWith ''https://example.org/'' ''http'' \<or> startsWith ''https://example.org/'' ''#''
          \<or> startsWith ''https://example.org/'' ''/'')"
    by (simp add: a s)
  have 2: "2 < length (anchors sample_world) \<and> anchors sample_world ! 2 = Some ''#top''
      \<and> (startsWith ''#top'' ''http'' \<or> startsWith ''#top'' ''#'' \<or> startsWith ''#top'' ''/'')"
    by (simp add: a s)
  have 3: "3 < length (anchors sample_world) \<and> anchors sample_world ! 3 = Some ''/index.html''
      \<and> (startsWith ''/index.html'' ''http'' \<or> startsWith ''/index.html'' ''#''
          \<or> startsWith ''/index.html'' ''/'')"
    by (simp add: a s)
  from t 0 have A: "anchors (updateInternalLinks sample_world sample_i18n) ! 0 = Some ''es/privacy.html''"
    by blast
  from t 1 have B: "anchors (updateInternalLinks sample_world sample_i18n) ! 1 = Some ''https://example.org/''"
    by blast
  from t 2 have C: "anchors (updateInternalLinks sample_world sample_i18n) ! 2 = Some ''#top''"
    by blast
  from t 3 have D: "anchors (updateInternalLinks sample_world sample_i18n) ! 3 = Some ''/index.html''"
    by blast
  from u h have E: "updateInternalLinks (sample_world\<lparr>pathname := ''/audiograb-site/es/index.html''\<rparr>) sample_i18n
       = sample_world\<lparr>pathname := ''/audiograb-site/es/index.html''\<rparr>"
    by blast
  from A B C D E show ?thesis by blast
qed

lemma is_alternate_new: "is_alternate (alternate_link hl url)"
  by (simp add: is_alternate_def alternate_link_def toLowerCase_def toLowerChar_def)

lemma filter_alternate_links:
  "filter is_alternate (alternate_links w) = alternate_links w"
  "filter (\<lambda>l. \<not> is_alternate l) (alternate_links w) = []"
  by (simp_all add: alternate_links_def is_alternate_new)

lemma pagePath_setupHrefLang: "pagePath (setupHrefLang w) = pagePath w"
  by (simp add: pagePath_def setupHrefLang_def)

lemma alternate_links_setupHrefLang: "alternate_links (setupHrefLang w) = alternate_links w"
  by (simp add: alternate_links_def pagePath_setupHrefLang)

lemma filter_not_alternate: "filter is_alternate (filter (\<lambda>l. \<not> is_alternate l) xs) = []"
  by (induction xs) auto

lemma setupHrefLang_alternates:
  "filter is_alternate (head_links (setupHrefLang w) @ body_links (setupHrefLang w))
     = alternate_links w"
  by (simp add: setupHrefLang_def filter_alternate_links filter_not_alternate)

lemma setupHrefLang_twice: "setupHrefLang (setupHrefLang w) = setupHrefLang w"
proof -
  have "head_links (setupHrefLang (setupHrefLang w)) = head_links (setupHrefLang w)"
    unfolding setupHrefLang_def [of "setupHrefLang w"] alternate_links_setupHrefLang
    by (simp add: setupHrefLang_def filter_alternate_links)
  moreover have "body_links (setupHrefLang (setupHrefLang w)) = body_links (setupHrefLang w)"
    by (simp add: setupHrefLang_def)
  ultimately show ?thesis
    by (simp add: setupHrefLang_def [of "setupHrefLang w"])
qed

text \<open>
  C9. \<open>setupHrefLang\<close> is idempotent: a second call leaves the document as the first left
  it. After one call or two, the links that match \<open>link[rel="alternate"][hreflang]\<close> are
  exactly the three injected ones, one for each of \<open>en\<close>, \<open>es\<close> and \<open>x-default\<close>, every
  earlier one having been removed.
\<close>

theorem setupHrefLang_idempotent:
  "setupHrefLang (setupHrefLang w) = setupHrefLang w
   \<and> filter is_alternate (head_links (setupHrefLang (setupHrefLang w))
        @ body_links (setupHrefLang (setupHrefLang w))) = alternate_links w
   \<and> filter is_alternate (head_links (setupHrefLang w) @ body_links (setupHrefLang w))
       = alternate_links w
   \<and> map link_hreflang (alternate_links w) = [Some ''en'', Some ''es'', Some ''x-default'']"
proof -
  have 1: "setupHrefLang (setupHrefLang w) = setupHrefLang w"
    by (rule setupHrefLang_twice)
  have 2: "filter is_alternate (head_links (setupHrefLang w) @ body_links (setupHrefLang w))
       = alternate_links w"
    by (rule setupHrefLang_alternates)
  have 3: "map link_hreflang (alternate_links w) = [Some ''en'', Some ''es'', Some ''x-default'']"
    by (simp add: alternate_links_def alternate_link_def)
  from 1 2 3 show ?thesis by (simp only: simp_thms)
qed

theorem setupHrefLang_idempotent_witness:
  "setupHrefLang (setupHrefLang sample_world) = setupHrefLang sample_world
   \<and> map link_hreflang
        (filter is_alternate (head_links (setupHrefLang (setupHrefLang sample_world))
           @ body_links (setupHrefLang (setupHrefLang sample_world))))
       = [Some ''en'', Some ''es'', Some ''x-default'']"
  using setupHrefLang_idempotent [of sample_world] by simp

end
